theory Spec2Isabelle
  imports Main "HOL-Library.AList"
begin

section \<open>Python values, dictionaries and pandas frames\<close>

text \<open>
  The two vector stores (\<^verbatim>\<open>faiss_store.py\<close>, \<^verbatim>\<open>chroma_store.py\<close>) keep three
  dictionaries keyed by table name and manipulate pandas DataFrames. This section models the
  Python and pandas operations those methods call.

  A cell of a DataFrame is a Python value: \<^verbatim>\<open>None\<close>, the float \<^verbatim>\<open>nan\<close> that pandas
  writes into missing cells, a boolean, a number, a string, or an embedding (a list of numbers).
  Numbers are integers here: rounding of \<^verbatim>\<open>float32\<close> values is outside the model.
\<close>

datatype val = VNone | VNaN | VBool bool | VInt int | VStr string | VVec "int list"

datatype error =
    DBOperationError
  | DataValidationError
  | KeyError
  | IndexError
  | ArrayError
  | ValueError
  | AssertionError
  | ClientError

text \<open>
  \<open>ArrayError\<close> stands for the \<^verbatim>\<open>ValueError\<close>/\<^verbatim>\<open>TypeError\<close> that numpy and faiss raise
  when a column of cells is not a matrix of numbers; \<open>ValueError\<close> is the one pandas raises
  when the values of an assignment do not fit the selection; \<open>ClientError\<close> stands for an
  exception raised by the Chroma client. A method returns its result (or the exception it raised) together with
  the state of the store it leaves behind.
\<close>

type_synonym ('a, 's) result = "(error + 'a) \<times> 's"

text \<open>
  A Python \<^verbatim>\<open>dict\<close> keeps its keys in insertion order, and assigning to an existing key keeps
  the key's position: that is \<^const>\<open>AList.update\<close> on an association list.
\<close>

type_synonym ('k, 'v) dict = "('k \<times> 'v) list"

abbreviation setitem :: "'k \<Rightarrow> 'v \<Rightarrow> ('k, 'v) dict \<Rightarrow> ('k, 'v) dict" where
  "setitem \<equiv> AList.update"

definition keys :: "('k, 'v) dict \<Rightarrow> 'k list" where
  "keys dct = map fst dct"

text \<open>\<^verbatim>\<open>{col: v for col in cols}\<close>: the keys in order of first occurrence.\<close>

definition dict_from_keys :: "'k list \<Rightarrow> 'v \<Rightarrow> ('k, 'v) dict" where
  "dict_from_keys ks v = foldl (\<lambda>dct k. setitem k v dct) [] ks"

subsection \<open>Comparisons\<close>

fun isnull :: "val \<Rightarrow> bool" where
  "isnull VNone = True"
| "isnull VNaN = True"
| "isnull _ = False"

text \<open>Python's \<^verbatim>\<open>bool\<close> is a subtype of \<^verbatim>\<open>int\<close>: \<^verbatim>\<open>True == 1\<close> and \<^verbatim>\<open>False == 0\<close>.\<close>

fun num_of :: "val \<Rightarrow> int option" where
  "num_of (VBool b) = Some (if b then 1 else 0)"
| "num_of (VInt i) = Some i"
| "num_of _ = None"

text \<open>Python's \<^verbatim>\<open>==\<close> on two cell values; \<^verbatim>\<open>nan\<close> is not equal to itself.\<close>

definition py_eq :: "val \<Rightarrow> val \<Rightarrow> bool" where
  "py_eq a b =
     (case (num_of a, num_of b) of
        (Some x, Some y) \<Rightarrow> x = y
      | _ \<Rightarrow> a = b \<and> a \<noteq> VNaN)"

text \<open>
  The element-wise comparisons of a pandas column with a scalar, \<^verbatim>\<open>series == v\<close> and
  \<^verbatim>\<open>series != v\<close>: a missing value on either side compares unequal.
\<close>

definition series_eq :: "val \<Rightarrow> val \<Rightarrow> bool" where
  "series_eq a b = (\<not> isnull a \<and> \<not> isnull b \<and> py_eq a b)"

definition series_ne :: "val \<Rightarrow> val \<Rightarrow> bool" where
  "series_ne a b = (isnull a \<or> isnull b \<or> \<not> py_eq a b)"

text \<open>\<^verbatim>\<open>series.isin(values)\<close>: membership by Python equality, with \<^verbatim>\<open>nan\<close> found among \<^verbatim>\<open>nan\<close>.\<close>

definition isin :: "val \<Rightarrow> val list \<Rightarrow> bool" where
  "isin a vs = list_ex (\<lambda>b. py_eq a b \<or> (a = VNaN \<and> b = VNaN)) vs"

subsection \<open>DataFrames\<close>

text \<open>
  A DataFrame is its column labels and its rows, each row carrying its index label and one
  cell per column. Column labels are taken to be distinct and every row to have as many cells
  as there are columns (\<open>wf_frame\<close>), as in any DataFrame the stores receive or build.
\<close>

record frame =
  df_columns :: "string list"
  df_rows :: "(nat \<times> val list) list"

definition wf_frame :: "frame \<Rightarrow> bool" where
  "wf_frame f =
     (distinct (df_columns f) \<and>
      list_all (\<lambda>r. length (snd r) = length (df_columns f)) (df_rows f))"

text \<open>\<^verbatim>\<open>pd.DataFrame(columns=cols)\<close>, and \<^verbatim>\<open>pd.DataFrame()\<close> for no columns.\<close>

definition DataFrame :: "string list \<Rightarrow> frame" where
  "DataFrame cs = \<lparr>df_columns = cs, df_rows = []\<rparr>"

text \<open>\<^verbatim>\<open>df.index\<close> and \<^verbatim>\<open>len(df)\<close>.\<close>

definition df_index :: "frame \<Rightarrow> nat list" where
  "df_index f = map fst (df_rows f)"

definition df_len :: "frame \<Rightarrow> nat" where
  "df_len f = length (df_rows f)"

text \<open>
  The cell of a row under a column label. Every read in the stores is of a label that was
  just tested to be a column, or taken from the columns; on such a label of a well-formed
  frame the cell exists, and \<open>VNaN\<close> is read only where pandas itself fills in a missing cell.
\<close>

definition cell :: "string list \<Rightarrow> val list \<Rightarrow> string \<Rightarrow> val" where
  "cell cs r c = (case map_of (zip cs r) c of Some v \<Rightarrow> v | None \<Rightarrow> VNaN)"

text \<open>\<^verbatim>\<open>df[c].tolist()\<close>.\<close>

definition column_values :: "frame \<Rightarrow> string \<Rightarrow> val list" where
  "column_values f c = map (\<lambda>r. cell (df_columns f) (snd r) c) (df_rows f)"

text \<open>
  \<^verbatim>\<open>pd.concat([a, b], ignore_index=True)\<close>: the columns of \<open>a\<close>, then those of \<open>b\<close> that
  \<open>a\<close> lacks; the rows of \<open>a\<close>, then those of \<open>b\<close>, re-labelled \<open>0, 1, ...\<close>; a cell a frame
  has no column for is \<^verbatim>\<open>nan\<close>.
\<close>

definition reindex :: "string list \<Rightarrow> string list \<Rightarrow> val list \<Rightarrow> val list" where
  "reindex new_cols cs r = map (cell cs r) new_cols"

definition concat_frames :: "frame \<Rightarrow> frame \<Rightarrow> frame" where
  "concat_frames a b =
     (let new_cols = df_columns a @ filter (\<lambda>c. c \<notin> set (df_columns a)) (df_columns b);
          cells = map (\<lambda>r. reindex new_cols (df_columns a) (snd r)) (df_rows a) @
                  map (\<lambda>r. reindex new_cols (df_columns b) (snd r)) (df_rows b)
      in \<lparr>df_columns = new_cols, df_rows = zip [0 ..< length cells] cells\<rparr>)"

text \<open>
  \<^verbatim>\<open>df.iterrows()\<close> yields each row as a Series labelled by the columns; the stores discard
  the index label. \<^verbatim>\<open>pd.DataFrame([row])\<close> is the one-row frame of such a Series.
\<close>

type_synonym series = "(string, val) dict"

definition iterrows :: "frame \<Rightarrow> series list" where
  "iterrows f = map (\<lambda>r. zip (df_columns f) (snd r)) (df_rows f)"

definition series_get :: "series \<Rightarrow> string \<Rightarrow> val" where
  "series_get row c = (case map_of row c of Some v \<Rightarrow> v | None \<Rightarrow> VNaN)"

definition frame_of_series :: "series \<Rightarrow> frame" where
  "frame_of_series row = \<lparr>df_columns = map fst row, df_rows = [(0, map snd row)]\<rparr>"

text \<open>
  \<^verbatim>\<open>df[c] = v\<close> for a scalar: every cell of column \<open>c\<close> becomes \<open>v\<close>; a new column is
  appended.
\<close>

definition set_cell :: "string list \<Rightarrow> string \<Rightarrow> val \<Rightarrow> val list \<Rightarrow> val list" where
  "set_cell cs c v r = map (\<lambda>(c', x). if c' = c then v else x) (zip cs r)"

definition set_column :: "frame \<Rightarrow> string \<Rightarrow> val \<Rightarrow> frame" where
  "set_column f c v =
     (if c \<in> set (df_columns f)
      then f\<lparr>df_rows := map (\<lambda>(l, r). (l, set_cell (df_columns f) c v r)) (df_rows f)\<rparr>
      else \<lparr>df_columns = df_columns f @ [c],
            df_rows = map (\<lambda>(l, r). (l, r @ [v])) (df_rows f)\<rparr>)"

text \<open>
  \<^verbatim>\<open>df.loc[mask, c] = v\<close> for a row predicate and a scalar: the cell of column \<open>c\<close> becomes
  \<open>v\<close> in the selected rows; if \<open>c\<close> is no column yet, pandas appends it, \<^verbatim>\<open>nan\<close> in the
  other rows.
\<close>

definition loc_set :: "frame \<Rightarrow> (val list \<Rightarrow> bool) \<Rightarrow> string \<Rightarrow> val \<Rightarrow> frame" where
  "loc_set f sel c v =
     (if c \<in> set (df_columns f)
      then f\<lparr>df_rows :=
               map (\<lambda>(l, r). (l, if sel r then set_cell (df_columns f) c v r else r))
                 (df_rows f)\<rparr>
      else \<lparr>df_columns = df_columns f @ [c],
            df_rows = map (\<lambda>(l, r). (l, r @ [if sel r then v else VNaN])) (df_rows f)\<rparr>)"

text \<open>
  \<^verbatim>\<open>df[df[c] == v].index\<close>: the labels of the rows whose cell under \<open>c\<close> equals \<open>v\<close>.
\<close>

definition index_where_eq :: "frame \<Rightarrow> string \<Rightarrow> val \<Rightarrow> nat list" where
  "index_where_eq f c v =
     map fst (filter (\<lambda>r. series_eq (cell (df_columns f) (snd r) c) v) (df_rows f))"

text \<open>
  \<^verbatim>\<open>df.loc[idx, :] = row\<close> for a list of index labels \<open>idx\<close> and a Series \<open>row\<close>.
  For a list-like row indexer pandas aligns the Series on the \<^emph>\<open>row\<close> labels: the value
  for the row labelled \<open>l\<close> is the entry of the Series under the key \<open>l\<close>. The Series
  that \<^verbatim>\<open>iterrows\<close> yields is keyed by the column labels (strings), the rows of a frame
  are labelled by numbers, so the aligned value is \<^verbatim>\<open>nan\<close> for every selected row: the
  values of \<open>row\<close> are not written. Whether pandas can then store the aligned values in
  the selected rows, or raises \<^verbatim>\<open>ValueError\<close> (``Must have equal len keys and value when
  setting with an iterable''), depends on the number of selected rows and on how the columns
  of the frame are laid out in blocks of one dtype, which a \<open>frame\<close> does not record: that
  decision is the parameter \<open>fits\<close>, given the frame and the selected labels. When the
  values are stored, every cell of the selected rows becomes \<^verbatim>\<open>nan\<close>.
\<close>

definition loc_assign ::
  "(frame \<Rightarrow> nat list \<Rightarrow> bool) \<Rightarrow> frame \<Rightarrow> nat list \<Rightarrow> series \<Rightarrow> error + frame" where
  "loc_assign fits f idx row =
     (if fits f idx
      then Inr (f\<lparr>df_rows :=
                    map (\<lambda>(l, r). (l, if l \<in> set idx then map (\<lambda>c. VNaN) (df_columns f) else r))
                      (df_rows f)\<rparr>)
      else Inl ValueError)"

text \<open>
  \<^verbatim>\<open>df.iloc[i].to_dict()\<close>: the row at position \<open>i\<close> as a dictionary; a negative position
  counts from the end, and a position outside the frame raises \<^verbatim>\<open>IndexError\<close>.
\<close>

definition iloc_to_dict :: "frame \<Rightarrow> int \<Rightarrow> error + series" where
  "iloc_to_dict f i =
     (let n = int (df_len f); j = (if i < 0 then n + i else i)
      in if 0 \<le> j \<and> j < n
         then Inr (zip (df_columns f) (snd (df_rows f ! nat j)))
         else Inl IndexError)"

subsection \<open>Printing a number\<close>

text \<open>\<^verbatim>\<open>str(n)\<close> of a natural number, as used in an f-string.\<close>

definition digit :: "nat \<Rightarrow> char" where
  "digit n = ''0123456789'' ! (n mod 10)"

function py_str :: "nat \<Rightarrow> string" where
  "py_str n = (if n < 10 then [digit n] else py_str (n div 10) @ [digit n])"
  by pat_completeness auto
termination
  by (relation "measure id") auto

declare py_str.simps [simp del]

section \<open>The table schema\<close>

text \<open>
  Modelled from the spec: the class \<^verbatim>\<open>TableSchema\<close> of
  \<^verbatim>\<open>src/embdloader/domain/entities.py\<close> is not among the sources. The spec describes it as a
  mapping from column name to a declared type tag and a parallel mapping from column name to
  nullability; the stores build it with \<^verbatim>\<open>TableSchema(columns=..., nullables=...)\<close> and read
  and assign \<^verbatim>\<open>.columns\<close>.
\<close>

record TableSchema =
  columns :: "(string, string) dict"
  nullables :: "(string, bool) dict"

text \<open>The invariant the spec states for a schema: both mappings have the same keys.\<close>

definition schema_inv :: "TableSchema \<Rightarrow> bool" where
  "schema_inv s = (set (keys (columns s)) = set (keys (nullables s)))"

text \<open>
  The column types \<^verbatim>\<open>create_table\<close> computes (the same statements in both stores).
  \<open>DEFAULT_DIMENTION\<close> is a constant of \<^verbatim>\<open>src/embdloader/config.py\<close>, which is not among the
  sources: it is a parameter here.
\<close>

definition vector_type :: "nat \<Rightarrow> string" where
  "vector_type DEFAULT_DIMENTION = ''vector('' @ py_str DEFAULT_DIMENTION @ '')''"

definition column_types :: "string list \<Rightarrow> string \<Rightarrow> string list \<Rightarrow> nat \<Rightarrow> (string, string) dict" where
  "column_types df_cols embed_type embed_columns_names DEFAULT_DIMENTION =
     (let ct0 = dict_from_keys df_cols ''text'';
          ct1 = setitem ''embed_columns_names'' ''text[]'' ct0;
          ct2 = (if embed_type = ''combined''
                 then setitem ''embeddings'' (vector_type DEFAULT_DIMENTION)
                        (setitem ''embed_columns_value'' ''text'' ct1)
                 else foldl (\<lambda>ct col. setitem (col @ ''_enc'') (vector_type DEFAULT_DIMENTION) ct)
                        ct1 embed_columns_names)
      in setitem ''is_active'' ''boolean'' ct2)"

definition new_schema :: "(string, string) dict \<Rightarrow> TableSchema" where
  "new_schema ct = \<lparr>columns = ct, nullables = map (\<lambda>col. (col, True)) (keys ct)\<rparr>"

section \<open>The stores\<close>

text \<open>
  Both classes hold \<^verbatim>\<open>self.data\<close> and \<^verbatim>\<open>self.schemas\<close>; \<^verbatim>\<open>FaissVectorStore\<close> adds
  \<^verbatim>\<open>self.indexes\<close> and \<^verbatim>\<open>ChromaVectorStore\<close> adds \<^verbatim>\<open>self.collections\<close>. The methods
  \<^verbatim>\<open>add_column\<close>, \<^verbatim>\<open>get_active_data\<close>, \<^verbatim>\<open>set_inactive\<close> and \<^verbatim>\<open>update_data\<close> have the same
  body in both classes and touch only the two common dictionaries, so each is defined once, on
  the common part of the two records.
\<close>

record store_base =
  data :: "(string, frame) dict"
  schemas :: "(string, TableSchema) dict"

subsection \<open>The flat index of faiss\<close>

text \<open>
  \<^verbatim>\<open>faiss.IndexFlatL2(d)\<close> stores the vectors it is given, in order. \<^verbatim>\<open>add\<close> asserts that
  the matrix has \<open>d\<close> columns. \<^verbatim>\<open>search(query, k)\<close> asserts the query's dimension and
  \<open>k > 0\<close>, and returns exactly \<open>k\<close> labels and squared Euclidean distances, nearest first;
  when the index holds fewer than \<open>k\<close> vectors the remaining slots hold the label \<open>-1\<close> and
  the largest \<^verbatim>\<open>float32\<close>.
\<close>

record IndexFlatL2 =
  dim :: nat
  xb :: "int list list"

definition FLT_MAX :: int where
  "FLT_MAX = 340282346638528859811704183484516925440"

text \<open>
  \<^verbatim>\<open>np.array(cells).astype("float32")\<close> followed by the \<^verbatim>\<open>n, d = x.shape\<close> of faiss: the
  cells must be a non-empty list of vectors of one length.
\<close>

fun vec_of :: "val \<Rightarrow> int list option" where
  "vec_of (VVec v) = Some v"
| "vec_of _ = None"

definition np_matrix :: "val list \<Rightarrow> error + int list list" where
  "np_matrix cells =
     (case those (map vec_of cells) of
        None \<Rightarrow> Inl ArrayError
      | Some [] \<Rightarrow> Inl ArrayError
      | Some (v # vs) \<Rightarrow>
          (if list_all (\<lambda>w. length w = length v) vs then Inr (v # vs) else Inl ArrayError))"

definition index_add :: "IndexFlatL2 \<Rightarrow> int list list \<Rightarrow> error + IndexFlatL2" where
  "index_add ix m =
     (if list_all (\<lambda>v. length v = dim ix) m then Inr (ix\<lparr>xb := xb ix @ m\<rparr>)
      else Inl AssertionError)"

definition l2_sqr :: "int list \<Rightarrow> int list \<Rightarrow> int" where
  "l2_sqr q v = sum_list (map (\<lambda>(a, b). (a - b) * (a - b)) (zip q v))"

definition index_search :: "IndexFlatL2 \<Rightarrow> int list \<Rightarrow> int \<Rightarrow> error + (int \<times> int) list" where
  "index_search ix q k =
     (if length q \<noteq> dim ix \<or> k \<le> 0 then Inl AssertionError
      else
        (let scored = zip (map int [0 ..< length (xb ix)]) (map (l2_sqr q) (xb ix));
             best = take (nat k) (sort_key snd scored)
         in Inr (best @ replicate (nat k - length best) (- 1, FLT_MAX))))"

record FaissVectorStore = store_base +
  indexes :: "(string, IndexFlatL2) dict"

record 'c ChromaVectorStore = store_base +
  collections :: "(string, 'c) dict"

definition faiss_init :: FaissVectorStore where
  "faiss_init = \<lparr>data = [], schemas = [], indexes = []\<rparr>"

definition chroma_init :: "'c ChromaVectorStore" where
  "chroma_init = \<lparr>data = [], schemas = [], collections = []\<rparr>"

subsection \<open>\<^verbatim>\<open>create_table\<close>\<close>

definition faiss_create_table ::
  "FaissVectorStore \<Rightarrow> string \<Rightarrow> frame \<Rightarrow> string list \<Rightarrow> string \<Rightarrow> string list \<Rightarrow> nat
     \<Rightarrow> ((string, string) dict, FaissVectorStore) result" where
  "faiss_create_table st table_name df pk_columns embed_type embed_columns_names DEFAULT_DIMENTION =
     (if table_name \<in> set (keys (indexes st))
      then (case map_of (schemas st) table_name of
              None \<Rightarrow> (Inl KeyError, st)
            | Some s \<Rightarrow> (Inr (columns s), st))
      else
        (let ct = column_types (df_columns df) embed_type embed_columns_names DEFAULT_DIMENTION;
             st1 = st\<lparr>schemas := setitem table_name (new_schema ct) (schemas st)\<rparr>;
             st2 = st1\<lparr>data := setitem table_name (DataFrame (keys ct)) (data st1)\<rparr>;
             st3 = st2\<lparr>indexes :=
                         setitem table_name \<lparr>dim = DEFAULT_DIMENTION, xb = []\<rparr> (indexes st2)\<rparr>
         in (Inr ct, st3)))"

text \<open>
  In the Chroma store the collection comes from \<^verbatim>\<open>self.client.create_collection\<close>, a call
  into the Chroma library, which may refuse a name: it is the parameter \<open>create_collection\<close>.
  The schema and the frame are stored before that call.
\<close>

definition chroma_create_table ::
  "(string \<Rightarrow> error + 'c) \<Rightarrow> 'c ChromaVectorStore \<Rightarrow> string \<Rightarrow> frame \<Rightarrow> string list \<Rightarrow> string
     \<Rightarrow> string list \<Rightarrow> nat \<Rightarrow> ((string, string) dict, 'c ChromaVectorStore) result" where
  "chroma_create_table create_collection st table_name df pk_columns embed_type
       embed_columns_names DEFAULT_DIMENTION =
     (if table_name \<in> set (keys (collections st))
      then (case map_of (schemas st) table_name of
              None \<Rightarrow> (Inl KeyError, st)
            | Some s \<Rightarrow> (Inr (columns s), st))
      else
        (let ct = column_types (df_columns df) embed_type embed_columns_names DEFAULT_DIMENTION;
             st1 = st\<lparr>schemas := setitem table_name (new_schema ct) (schemas st)\<rparr>;
             st2 = st1\<lparr>data := setitem table_name (DataFrame (keys ct)) (data st1)\<rparr>
         in case create_collection table_name of
              Inl e \<Rightarrow> (Inl e, st2)
            | Inr coll \<Rightarrow>
                (Inr ct, st2\<lparr>collections := setitem table_name coll (collections st2)\<rparr>)))"

subsection \<open>\<^verbatim>\<open>insert_data\<close>\<close>

definition faiss_insert_data ::
  "FaissVectorStore \<Rightarrow> string \<Rightarrow> frame \<Rightarrow> string list \<Rightarrow> (unit, FaissVectorStore) result" where
  "faiss_insert_data st table_name df pk_columns =
     (case map_of (data st) table_name of
        None \<Rightarrow> (Inl DBOperationError, st)
      | Some old \<Rightarrow>
          (if \<not> list_all (\<lambda>col. col \<in> set (df_columns df)) pk_columns
           then (Inl DataValidationError, st)
           else
             (let st1 = st\<lparr>data := setitem table_name (concat_frames old df) (data st)\<rparr>
              in if ''embeddings'' \<in> set (df_columns df)
                 then (case np_matrix (column_values df ''embeddings'') of
                         Inl e \<Rightarrow> (Inl e, st1)
                       | Inr embeddings \<Rightarrow>
                           (case map_of (indexes st1) table_name of
                              None \<Rightarrow> (Inl KeyError, st1)
                            | Some ix \<Rightarrow>
                                (case index_add ix embeddings of
                                   Inl e \<Rightarrow> (Inl e, st1)
                                 | Inr ix' \<Rightarrow>
                                     (Inr (),
                                      st1\<lparr>indexes := setitem table_name ix' (indexes st1)\<rparr>))))
                 else (Inr (), st1))))"

text \<open>
  The Chroma store tests \<^verbatim>\<open>self.collections\<close> and hands the batch to the collection's
  \<^verbatim>\<open>add\<close>, another call into the Chroma library: the parameter \<open>collection_add\<close>, given
  the collection, the embeddings, the documents and the ids \<^verbatim>\<open>[str(i) for i in df.index]\<close>.
\<close>

definition chroma_insert_data ::
  "('c \<Rightarrow> val list \<Rightarrow> val list \<Rightarrow> string list \<Rightarrow> error + 'c) \<Rightarrow> 'c ChromaVectorStore \<Rightarrow> string
     \<Rightarrow> frame \<Rightarrow> string list \<Rightarrow> (unit, 'c ChromaVectorStore) result" where
  "chroma_insert_data collection_add st table_name df pk_columns =
     (case map_of (collections st) table_name of
        None \<Rightarrow> (Inl DBOperationError, st)
      | Some coll \<Rightarrow>
          (if \<not> list_all (\<lambda>col. col \<in> set (df_columns df)) pk_columns
           then (Inl DataValidationError, st)
           else
             (case map_of (data st) table_name of
                None \<Rightarrow> (Inl KeyError, st)
              | Some old \<Rightarrow>
                  (let st1 = st\<lparr>data := setitem table_name (concat_frames old df) (data st)\<rparr>
                   in if ''embeddings'' \<in> set (df_columns df)
                      then (case collection_add coll
                                   (column_values df ''embeddings'')
                                   (if ''embed_columns_value'' \<in> set (df_columns df)
                                    then column_values df ''embed_columns_value''
                                    else replicate (df_len df) (VStr []))
                                   (map py_str (df_index df)) of
                              Inl e \<Rightarrow> (Inl e, st1)
                            | Inr coll' \<Rightarrow>
                                (Inr (),
                                 st1\<lparr>collections :=
                                       setitem table_name coll' (collections st1)\<rparr>))
                      else (Inr (), st1)))))"

subsection \<open>\<^verbatim>\<open>search\<close> of the faiss store\<close>

text \<open>
  The loop over the labels and distances the index returned: a label below \<^verbatim>\<open>len(data)\<close>
  is looked up with \<^verbatim>\<open>iloc\<close> and the row gets the key \<^verbatim>\<open>distance\<close>.
\<close>

fun search_results :: "frame \<Rightarrow> (int \<times> int) list \<Rightarrow> error + series list" where
  "search_results f [] = Inr []"
| "search_results f ((idx, dist) # hits) =
     (if idx < int (df_len f)
      then (case iloc_to_dict f idx of
              Inl e \<Rightarrow> Inl e
            | Inr row \<Rightarrow>
                (case search_results f hits of
                   Inl e \<Rightarrow> Inl e
                 | Inr results \<Rightarrow> Inr (setitem ''distance'' (VInt dist) row # results)))
      else search_results f hits)"

definition faiss_search ::
  "FaissVectorStore \<Rightarrow> string \<Rightarrow> int list \<Rightarrow> int \<Rightarrow> error + series list" where
  "faiss_search st table_name query_embedding top_k =
     (case map_of (indexes st) table_name of
        None \<Rightarrow> Inl DBOperationError
      | Some ix \<Rightarrow>
          (case index_search ix query_embedding top_k of
             Inl e \<Rightarrow> Inl e
           | Inr hits \<Rightarrow>
               (case map_of (data st) table_name of
                  None \<Rightarrow> Inl KeyError
                | Some f \<Rightarrow> search_results f hits)))"

subsection \<open>The methods common to both stores\<close>

definition add_column ::
  "'a store_base_scheme \<Rightarrow> string \<Rightarrow> string \<Rightarrow> string \<Rightarrow> (unit, 'a store_base_scheme) result" where
  "add_column st table_name column_name column_type =
     (case map_of (schemas st) table_name of
        None \<Rightarrow> (Inl DBOperationError, st)
      | Some s \<Rightarrow>
          (let st1 = st\<lparr>schemas :=
                         setitem table_name
                           (s\<lparr>columns := setitem column_name column_type (columns s)\<rparr>)
                           (schemas st)\<rparr>
           in case map_of (data st1) table_name of
                None \<Rightarrow> (Inl KeyError, st1)
              | Some f \<Rightarrow>
                  (Inr (),
                   st1\<lparr>data := setitem table_name (set_column f column_name VNone) (data st1)\<rparr>)))"

definition get_active_data :: "'a store_base_scheme \<Rightarrow> string \<Rightarrow> frame" where
  "get_active_data st table_name =
     (case map_of (data st) table_name of
        None \<Rightarrow> DataFrame []
      | Some f \<Rightarrow>
          (if ''is_active'' \<in> set (df_columns f)
           then f\<lparr>df_rows :=
                    filter (\<lambda>r. series_ne (cell (df_columns f) (snd r) ''is_active'') (VBool False))
                      (df_rows f)\<rparr>
           else f))"

definition set_inactive ::
  "'a store_base_scheme \<Rightarrow> string \<Rightarrow> val list \<Rightarrow> (unit, 'a store_base_scheme) result" where
  "set_inactive st table_name pk_values =
     (case map_of (data st) table_name of
        None \<Rightarrow> (Inr (), st)
      | Some f \<Rightarrow>
          (if pk_values = [] then (Inr (), st)
           else
             (case df_columns f of
                [] \<Rightarrow> (Inl IndexError, st)
              | pk_col # _ \<Rightarrow>
                  (Inr (),
                   st\<lparr>data :=
                        setitem table_name
                          (loc_set f (\<lambda>r. isin (cell (df_columns f) r pk_col) pk_values)
                             ''is_active'' (VBool False))
                          (data st)\<rparr>))))"

text \<open>
  \<^verbatim>\<open>update_data\<close>: the outer loop runs over the primary-key columns, the inner loop over
  the rows of the batch. The local variable \<^verbatim>\<open>existing\<close> starts as the very DataFrame
  object that \<^verbatim>\<open>self.data[table_name]\<close> holds, so an assignment through \<^verbatim>\<open>.loc\<close>
  changes the stored frame at once; the first \<^verbatim>\<open>pd.concat\<close> binds \<^verbatim>\<open>existing\<close> to a
  new object and from then on the stored frame stays as it is until the final assignment.
  The state of the loops is therefore the pair of \<^verbatim>\<open>existing\<close> and, once it was
  rebound, the frame the store still holds. This matters when the \<^verbatim>\<open>.loc\<close> assignment
  raises: the exception leaves the method and the store keeps that frame.
\<close>

type_synonym update_state = "frame \<times> frame option"

definition held_frame :: "update_state \<Rightarrow> frame" where
  "held_frame s = (case snd s of None \<Rightarrow> fst s | Some f \<Rightarrow> f)"

fun update_rows ::
  "(frame \<Rightarrow> nat list \<Rightarrow> bool) \<Rightarrow> update_state \<Rightarrow> string \<Rightarrow> series list
     \<Rightarrow> error option \<times> update_state" where
  "update_rows fits (existing, held) pk [] = (None, (existing, held))"
| "update_rows fits (existing, held) pk (row # rest) =
     (let existing_idx = index_where_eq existing pk (series_get row pk)
      in if existing_idx \<noteq> []
         then (case loc_assign fits existing existing_idx row of
                 Inl e \<Rightarrow> (Some e, (existing, held))
               | Inr existing' \<Rightarrow> update_rows fits (existing', held) pk rest)
         else update_rows fits
                (concat_frames existing (frame_of_series row),
                 case held of None \<Rightarrow> Some existing | Some f \<Rightarrow> Some f)
                pk rest)"

fun update_pks ::
  "(frame \<Rightarrow> nat list \<Rightarrow> bool) \<Rightarrow> update_state \<Rightarrow> frame \<Rightarrow> string list
     \<Rightarrow> error option \<times> update_state" where
  "update_pks fits (existing, held) df [] = (None, (existing, held))"
| "update_pks fits (existing, held) df (pk # pks) =
     (if pk \<notin> set (df_columns df) \<or> pk \<notin> set (df_columns existing)
      then update_pks fits (existing, held) df pks
      else (case update_rows fits (existing, held) pk (iterrows df) of
              (Some e, s) \<Rightarrow> (Some e, s)
            | (None, s) \<Rightarrow> update_pks fits s df pks))"

definition update_data ::
  "(frame \<Rightarrow> nat list \<Rightarrow> bool) \<Rightarrow> 'a store_base_scheme \<Rightarrow> string \<Rightarrow> frame \<Rightarrow> string list
     \<Rightarrow> (unit, 'a store_base_scheme) result" where
  "update_data fits st table_name df pk_columns =
     (case map_of (data st) table_name of
        None \<Rightarrow> (Inl DBOperationError, st)
      | Some existing \<Rightarrow>
          (case update_pks fits (existing, None) df pk_columns of
             (Some e, s) \<Rightarrow> (Inl e, st\<lparr>data := setitem table_name (held_frame s) (data st)\<rparr>)
           | (None, s) \<Rightarrow> (Inr (), st\<lparr>data := setitem table_name (fst s) (data st)\<rparr>)))"

text \<open>
  The correspondence that \<^verbatim>\<open>search\<close> relies on when it maps a label of the index to
  \<^verbatim>\<open>data.iloc[label]\<close>: position \<open>i\<close> of the index holds the \<open>embeddings\<close> cell of
  stored row \<open>i\<close>.
\<close>

definition index_aligned :: "IndexFlatL2 \<Rightarrow> frame \<Rightarrow> bool" where
  "index_aligned ix f = (column_values f ''embeddings'' = map VVec (xb ix))"

section \<open>Sample tables\<close>

text \<open>Small concrete frames and stores, on which the theorems below are instantiated.\<close>

definition people :: frame where
  "people = \<lparr>df_columns = [''id'', ''name''], df_rows = [(0, [VInt 1, VStr ''a''])]\<rparr>"

definition people_table :: FaissVectorStore where
  "people_table = snd (faiss_create_table faiss_init ''people'' people [''id''] ''combined'' [] 2)"

definition people_store :: FaissVectorStore where
  "people_store = snd (faiss_insert_data people_table ''people'' people [''id''])"

definition stored_people :: frame where
  "stored_people =
     \<lparr>df_columns = [''id'', ''name'', ''embed_columns_names'', ''embed_columns_value'',
                     ''embeddings'', ''is_active''],
      df_rows = [(0, [VInt 1, VStr ''a'', VNaN, VNaN, VNaN, VNaN])]\<rparr>"

definition people_chroma :: "unit ChromaVectorStore" where
  "people_chroma =
     snd (chroma_create_table (\<lambda>name. Inr ()) chroma_init ''people'' people [''id'']
            ''combined'' [] 2)"

definition people_embedded :: frame where
  "people_embedded =
     \<lparr>df_columns = [''id'', ''name'', ''embeddings''],
      df_rows = [(0, [VInt 1, VStr ''a'', VVec [0, 0]])]\<rparr>"

definition people_indexed :: FaissVectorStore where
  "people_indexed = snd (faiss_insert_data people_table ''people'' people_embedded [''id''])"

definition pairs :: frame where
  "pairs = \<lparr>df_columns = [''a'', ''b''], df_rows = [(0, [VInt 1, VInt 1])]\<rparr>"

definition pairs_store :: FaissVectorStore where
  "pairs_store =
     snd (faiss_insert_data
            (snd (faiss_create_table faiss_init ''pairs'' pairs [''a'', ''b''] ''combined'' [] 2))
            ''pairs'' pairs [''a'', ''b''])"

definition stored_pairs :: frame where
  "stored_pairs =
     \<lparr>df_columns = [''a'', ''b'', ''embed_columns_names'', ''embed_columns_value'',
                     ''embeddings'', ''is_active''],
      df_rows = [(0, [VInt 1, VInt 1, VNaN, VNaN, VNaN, VNaN])]\<rparr>"

definition pairs_same_a :: frame where
  "pairs_same_a = \<lparr>df_columns = [''a'', ''b''], df_rows = [(0, [VInt 1, VInt 2])]\<rparr>"

definition pairs_same_b :: frame where
  "pairs_same_b = \<lparr>df_columns = [''a'', ''b''], df_rows = [(0, [VInt 2, VInt 1])]\<rparr>"

definition people_renamed :: frame where
  "people_renamed = \<lparr>df_columns = [''id'', ''name''], df_rows = [(0, [VInt 1, VStr ''b''])]\<rparr>"

definition catalog :: frame where
  "catalog = \<lparr>df_columns = [''id'', ''name'', ''description''], df_rows = []\<rparr>"

definition catalog_columns :: "(string, string) dict" where
  "catalog_columns =
     [(''id'', ''text''), (''name'', ''text''), (''description'', ''text''),
      (''embed_columns_names'', ''text[]''), (''name_enc'', ''vector(768)''),
      (''description_enc'', ''vector(768)''), (''is_active'', ''boolean'')]"

definition catalog_table :: FaissVectorStore where
  "catalog_table =
     snd (faiss_create_table faiss_init ''catalog'' catalog [''id''] ''separated''
            [''name'', ''description''] 2)"

definition catalog_batch :: frame where
  "catalog_batch =
     \<lparr>df_columns = [''id'', ''name'', ''description'', ''name_enc'', ''description_enc''],
      df_rows = [(0, [VInt 1, VStr ''pen'', VStr ''blue ink'', VVec [1, 0], VVec [0, 1]])]\<rparr>"

section \<open>Dictionaries and stored frames\<close>

lemma in_keys_iff: "k \<in> set (keys dct) \<longleftrightarrow> map_of dct k \<noteq> None"
  by (simp add: keys_def map_of_eq_None_iff)


lemma columns_new_schema: "columns (new_schema ct) = ct"
  by (simp add: new_schema_def)

lemma data_people_store: "map_of (data people_store) ''people'' = Some stored_people"
  by code_simp

section \<open>\<^verbatim>\<open>update_data\<close> does not validate the primary keys\<close>







section \<open>\<^verbatim>\<open>get_active_data\<close>\<close>

lemma series_ne_False: "series_ne v (VBool False) \<longleftrightarrow> v \<noteq> VBool False \<and> v \<noteq> VInt 0"
  by (cases v) (auto simp: series_ne_def py_eq_def)

text \<open>
  Claim C8. \<^verbatim>\<open>get_active_data\<close> returns an empty frame for an unknown table, and for a
  known table the stored rows, in order, without those whose \<^verbatim>\<open>is_active\<close> cell is false
  (\<^verbatim>\<open>False\<close>, or \<open>0\<close>, which Python identifies with it). A row whose cell is \<^verbatim>\<open>None\<close> or
  \<^verbatim>\<open>nan\<close> is kept, and so is every row of a frame that has no \<^verbatim>\<open>is_active\<close> column. The
  method is a function of the store: it raises nothing.
\<close>

theorem get_active_data_spec:
  "(map_of (data st) t = None \<longrightarrow>
      get_active_data st t = DataFrame [] \<and> df_rows (get_active_data st t) = [])
   \<and> (map_of (data st) t = Some f \<longrightarrow>
        df_columns (get_active_data st t) = df_columns f \<and>
        df_rows (get_active_data st t) =
          filter (\<lambda>r. \<not> (''is_active'' \<in> set (df_columns f) \<and>
                          cell (df_columns f) (snd r) ''is_active'' \<in> {VBool False, VInt 0}))
            (df_rows f))"
  by (auto simp: get_active_data_def series_ne_False DataFrame_def intro: filter_cong)

theorem get_active_data_spec_witness:
  "map_of (data people_store) ''people'' = Some stored_people
   \<and> map_of (data people_store) ''orders'' = None
   \<and> df_rows (get_active_data people_store ''people'') =
       [(0, [VInt 1, VStr ''a'', VNaN, VNaN, VNaN, VNaN])]
   \<and> df_rows (get_active_data people_store ''orders'') = []"
proof -
  have unknown: "map_of (data people_store) ''orders'' = None"
    by code_simp
  have kept: "filter (\<lambda>r. \<not> (''is_active'' \<in> set (df_columns stored_people) \<and>
                  cell (df_columns stored_people) (snd r) ''is_active'' \<in> {VBool False, VInt 0}))
                (df_rows stored_people) = [(0, [VInt 1, VStr ''a'', VNaN, VNaN, VNaN, VNaN])]"
    by (simp add: stored_people_def cell_def)
  from get_active_data_spec [where st = people_store and t = "''people''" and f = stored_people]
       get_active_data_spec [where st = people_store and t = "''orders''" and f = stored_people]
       unknown kept data_people_store
  show ?thesis by (simp add: DataFrame_def)
qed

section \<open>The error contract of \<^verbatim>\<open>insert_data\<close>\<close>

text \<open>
  A table name gets into \<^verbatim>\<open>self.data\<close> only through \<^verbatim>\<open>create_table\<close>: the store starts
  without tables and the other methods keep the set of names.
\<close>

lemma keys_setitem_existing:
  "map_of dct k = Some v \<Longrightarrow> set (keys (setitem k v' dct)) = set (keys dct)"
  by (auto simp: keys_def AList.dom_update dest: map_of_SomeD intro: rev_image_eqI)

lemma data_keys_faiss_insert_data:
  "set (keys (data (snd (faiss_insert_data st t df pks)))) = set (keys (data st))"
  by (auto simp: faiss_insert_data_def Let_def keys_setitem_existing
      split: option.splits sum.splits)

lemma data_keys_update_data:
  "set (keys (data (snd (update_data fits st t df pks)))) = set (keys (data st))"
  by (auto simp: update_data_def keys_setitem_existing split: option.splits prod.splits)

lemma data_keys_set_inactive:
  "set (keys (data (snd (set_inactive st t vs)))) = set (keys (data st))"
  by (auto simp: set_inactive_def keys_setitem_existing split: option.splits list.splits)

lemma data_keys_add_column:
  "set (keys (data (snd (add_column st t c ty)))) = set (keys (data st))"
  by (auto simp: add_column_def Let_def keys_setitem_existing split: option.splits)

lemma data_keys_faiss_create_table:
  "set (keys (data (snd (faiss_create_table st t df pk et ec d)))) \<subseteq> insert t (set (keys (data st)))"
  by (auto simp: faiss_create_table_def Let_def keys_def AList.dom_update split: option.splits)

lemma data_keys_faiss_init: "keys (data faiss_init) = []"
  by (simp add: faiss_init_def keys_def)

text \<open>
  Claim C5. \<^verbatim>\<open>insert_data\<close> tests the table first and the primary keys second, before it
  touches anything: for a table name the store does not hold it raises \<open>DBOperationError\<close>,
  and for a table it holds and a batch that lacks a declared primary-key column it raises
  \<open>DataValidationError\<close>; in both cases the store is returned as it was. The faiss store
  looks the name up in \<^verbatim>\<open>self.data\<close>, the Chroma store in \<^verbatim>\<open>self.collections\<close>.
\<close>

theorem insert_data_error_contract:
  "(map_of (data st) t = None \<longrightarrow> faiss_insert_data st t df pks = (Inl DBOperationError, st))
   \<and> (map_of (data st) t \<noteq> None \<and> \<not> set pks \<subseteq> set (df_columns df)
        \<longrightarrow> faiss_insert_data st t df pks = (Inl DataValidationError, st))
   \<and> (map_of (collections cst) t = None
        \<longrightarrow> chroma_insert_data collection_add cst t df pks = (Inl DBOperationError, cst))
   \<and> (map_of (collections cst) t \<noteq> None \<and> \<not> set pks \<subseteq> set (df_columns df)
        \<longrightarrow> chroma_insert_data collection_add cst t df pks = (Inl DataValidationError, cst))"
  by (auto simp: faiss_insert_data_def chroma_insert_data_def list_all_iff split: option.splits)

section \<open>\<^verbatim>\<open>create_table\<close> is idempotent\<close>

lemma faiss_create_table_twice:
  "faiss_create_table (snd (faiss_create_table st t df pk et ec d)) t df pk et ec d
     = faiss_create_table st t df pk et ec d"
  by (auto simp: faiss_create_table_def Let_def in_keys_iff AList.update_conv' columns_new_schema
      split: option.splits)

lemma chroma_create_table_twice:
  "chroma_create_table cc (snd (chroma_create_table cc st t df pk et ec d)) t df pk et ec d
     = chroma_create_table cc st t df pk et ec d"
  by (auto simp: chroma_create_table_def Let_def in_keys_iff AList.update_conv' columns_new_schema
      split: option.splits sum.splits)

lemma faiss_create_table_existing:
  "t \<in> set (keys (indexes st)) \<Longrightarrow> snd (faiss_create_table st t df pk et ec d) = st"
  by (simp add: faiss_create_table_def split: option.splits)

lemma chroma_create_table_existing:
  "t \<in> set (keys (collections st)) \<Longrightarrow> snd (chroma_create_table cc st t df pk et ec d) = st"
  by (simp add: chroma_create_table_def split: option.splits)

text \<open>
  Claim C3. A second call of \<^verbatim>\<open>create_table\<close> with the same arguments returns what the
  first call returned and leaves the store as the first call left it, in both stores; and
  whenever the table already exists the call changes nothing in the store (schema, frame and
  index or collection), whatever its other arguments.
\<close>

theorem create_table_idempotent:
  "faiss_create_table (snd (faiss_create_table st t df pk et ec d)) t df pk et ec d
     = faiss_create_table st t df pk et ec d
   \<and> chroma_create_table cc (snd (chroma_create_table cc cst t df pk et ec d)) t df pk et ec d
     = chroma_create_table cc cst t df pk et ec d
   \<and> (t \<in> set (keys (indexes st)) \<longrightarrow> snd (faiss_create_table st t df pk et ec d) = st)
   \<and> (t \<in> set (keys (collections cst)) \<longrightarrow> snd (chroma_create_table cc cst t df pk et ec d) = cst)"
  by (simp add: faiss_create_table_twice chroma_create_table_twice
      faiss_create_table_existing chroma_create_table_existing)

theorem create_table_idempotent_witness:
  "''people'' \<in> set (keys (indexes people_table))
   \<and> ''people'' \<in> set (keys (collections people_chroma))
   \<and> faiss_create_table people_table ''people'' people [''id''] ''combined'' [] 2
       = (fst (faiss_create_table faiss_init ''people'' people [''id''] ''combined'' [] 2),
          people_table)
   \<and> snd (chroma_create_table (\<lambda>name. Inr ()) people_chroma ''people'' people [''id'']
            ''combined'' [] 2) = people_chroma"
proof -
  have known: "''people'' \<in> set (keys (indexes people_table))"
    by code_simp
  have known_chroma: "''people'' \<in> set (keys (collections people_chroma))"
    by code_simp
  from create_table_idempotent
         [where st = faiss_init and cst = people_chroma and t = "''people''" and df = people
            and pk = "[''id'']" and et = "''combined''" and ec = "[]" and d = 2
            and cc = "\<lambda>name. Inr ()"]
       known known_chroma
  show ?thesis by (simp add: people_table_def prod_eq_iff)
qed

theorem insert_data_error_contract_witness:
  "map_of (data people_store) ''orders'' = None
   \<and> map_of (data people_store) ''people'' \<noteq> None
   \<and> map_of (collections people_chroma) ''orders'' = None
   \<and> map_of (collections people_chroma) ''people'' \<noteq> None
   \<and> \<not> set [''id'', ''sku''] \<subseteq> set (df_columns people)
   \<and> faiss_insert_data people_store ''orders'' people [''id'', ''sku'']
       = (Inl DBOperationError, people_store)
   \<and> faiss_insert_data people_store ''people'' people [''id'', ''sku'']
       = (Inl DataValidationError, people_store)
   \<and> chroma_insert_data (\<lambda>coll embeddings documents ids. Inr coll) people_chroma ''orders''
         people [''id'', ''sku'']
       = (Inl DBOperationError, people_chroma)
   \<and> chroma_insert_data (\<lambda>coll embeddings documents ids. Inr coll) people_chroma ''people''
         people [''id'', ''sku'']
       = (Inl DataValidationError, people_chroma)"
proof -
  have unknown: "map_of (data people_store) ''orders'' = None"
    and known: "map_of (data people_store) ''people'' \<noteq> None"
    and unknown_chroma: "map_of (collections people_chroma) ''orders'' = None"
    and known_chroma: "map_of (collections people_chroma) ''people'' \<noteq> None"
    by code_simp+
  have missing: "\<not> set [''id'', ''sku''] \<subseteq> set (df_columns people)"
    by (simp add: people_def)
  from insert_data_error_contract
         [where st = people_store and cst = people_chroma and t = "''orders''" and df = people
            and pks = "[''id'', ''sku'']"
            and collection_add = "\<lambda>coll embeddings documents ids. Inr coll"]
       insert_data_error_contract
         [where st = people_store and cst = people_chroma and t = "''people''" and df = people
            and pks = "[''id'', ''sku'']"
            and collection_add = "\<lambda>coll embeddings documents ids. Inr coll"]
       unknown known unknown_chroma known_chroma missing
  show ?thesis by blast
qed

section \<open>The schema invariant\<close>

lemma schema_inv_new_schema: "schema_inv (new_schema ct)"
  by (simp add: schema_inv_def new_schema_def keys_def comp_def)

lemma faiss_create_table_schema_inv:
  "t \<notin> set (keys (indexes st)) \<Longrightarrow>
   \<exists>s. map_of (schemas (snd (faiss_create_table st t df pk et ec d))) t = Some s \<and> schema_inv s"
  by (simp add: faiss_create_table_def Let_def AList.update_conv' schema_inv_new_schema)

lemma chroma_create_table_schema_inv:
  "t \<notin> set (keys (collections st)) \<Longrightarrow>
   \<exists>s. map_of (schemas (snd (chroma_create_table cc st t df pk et ec d))) t = Some s \<and> schema_inv s"
  by (auto simp: chroma_create_table_def Let_def AList.update_conv' schema_inv_new_schema
      split: sum.splits)

lemma schemas_insert_data: "schemas (snd (faiss_insert_data st t df pks)) = schemas st"
  by (simp add: faiss_insert_data_def Let_def split: option.splits sum.splits)

lemma schemas_update_data: "schemas (snd (update_data fits st t df pks)) = schemas st"
  by (simp add: update_data_def split: option.splits prod.splits)

lemma schemas_set_inactive: "schemas (snd (set_inactive st t vs)) = schemas st"
  by (simp add: set_inactive_def split: option.splits list.splits)

text \<open>
  Claim C9. \<^verbatim>\<open>create_table\<close> stores a schema whose two mappings have the same keys
  (\<open>faiss_create_table_schema_inv\<close>), but \<^verbatim>\<open>add_column\<close> assigns the new column in
  \<^verbatim>\<open>columns\<close> only: after adding the column \<open>age\<close> to the table \<open>people\<close> the column map
  has a key that the nullability map lacks.
\<close>

theorem add_column_breaks_schema_inv:
  "(case map_of (schemas people_table) ''people'' of
      None \<Rightarrow> False
    | Some s \<Rightarrow> schema_inv s)
   \<and> fst (add_column people_table ''people'' ''age'' ''text'') = Inr ()
   \<and> (case map_of (schemas (snd (add_column people_table ''people'' ''age'' ''text''))) ''people'' of
        None \<Rightarrow> False
      | Some s \<Rightarrow> ''age'' \<in> set (keys (columns s)) \<and> ''age'' \<notin> set (keys (nullables s))
                  \<and> \<not> schema_inv s)"
  by code_simp

section \<open>\<^verbatim>\<open>update_data\<close> replaces no row\<close>

lemma data_pairs_store: "data pairs_store = [(''pairs'', stored_pairs)]"
  by code_simp

lemma data_people_store_all: "data people_store = [(''people'', stored_people)]"
  by code_simp

text \<open>
  Claim C1. \<^verbatim>\<open>update_data\<close> does not replace a matching row by the input row. The
  assignment \<^verbatim>\<open>existing.loc[existing_idx, :] = row\<close> aligns \<open>row\<close> on the row labels,
  so where pandas stores the value the matched row becomes \<^verbatim>\<open>nan\<close> in every column, and
  otherwise the call raises \<open>ValueError\<close> and the store stays as it was. In the claim's
  own example (the table \<open>people\<close> holds \<open>{id: 1, name: a}\<close> under the key \<open>id\<close>, the batch
  is \<open>{id: 1, name: b}\<close>) the stored row is not \<open>{id: 1, name: b}\<close> afterwards.

  For a composite key the loops are moreover nested the wrong way round: each key column is
  matched on its own, in turn. The table \<open>pairs\<close> holds \<open>(a, b) = (1, 1)\<close> under the key
  \<open>[a, b]\<close>. The batch \<open>(1, 2)\<close> differs in \<open>b\<close>, yet in the pass over \<open>a\<close> the
  stored row is selected for the assignment; where that succeeds the stored row is blanked
  and the pass over \<open>b\<close> then appends the batch row. The batch \<open>(2, 1)\<close> differs in
  \<open>a\<close>: it is appended in the pass over \<open>a\<close>, and in the pass over \<open>b\<close> both the
  stored row and the appended row are selected; where the assignment raises, the appended
  row is lost with the exception.
\<close>

theorem update_data_replaces_no_row:
  "update_data fits people_store ''people'' people_renamed [''id'']
     = (if fits stored_people [0]
        then (Inr (),
              people_store\<lparr>data :=
                setitem ''people''
                  (stored_people\<lparr>df_rows := [(0, [VNaN, VNaN, VNaN, VNaN, VNaN, VNaN])]\<rparr>)
                  (data people_store)\<rparr>)
        else (Inl ValueError, people_store))
   \<and> update_data fits pairs_store ''pairs'' pairs_same_a [''a'', ''b'']
     = (if fits stored_pairs [0]
        then (Inr (),
              pairs_store\<lparr>data :=
                setitem ''pairs''
                  (stored_pairs\<lparr>df_rows := [(0, [VNaN, VNaN, VNaN, VNaN, VNaN, VNaN]),
                                            (1, [VInt 1, VInt 2, VNaN, VNaN, VNaN, VNaN])]\<rparr>)
                  (data pairs_store)\<rparr>)
        else (Inl ValueError, pairs_store))
   \<and> update_data fits pairs_store ''pairs'' pairs_same_b [''a'', ''b'']
     = (if fits (stored_pairs\<lparr>df_rows := [(0, [VInt 1, VInt 1, VNaN, VNaN, VNaN, VNaN]),
                                           (1, [VInt 2, VInt 1, VNaN, VNaN, VNaN, VNaN])]\<rparr>)
             [0, 1]
        then (Inr (),
              pairs_store\<lparr>data :=
                setitem ''pairs''
                  (stored_pairs\<lparr>df_rows := [(0, [VNaN, VNaN, VNaN, VNaN, VNaN, VNaN]),
                                            (1, [VNaN, VNaN, VNaN, VNaN, VNaN, VNaN])]\<rparr>)
                  (data pairs_store)\<rparr>)
        else (Inl ValueError, pairs_store))"
proof (intro conjI)
  show "update_data fits people_store ''people'' people_renamed [''id'']
     = (if fits stored_people [0]
        then (Inr (),
              people_store\<lparr>data :=
                setitem ''people''
                  (stored_people\<lparr>df_rows := [(0, [VNaN, VNaN, VNaN, VNaN, VNaN, VNaN])]\<rparr>)
                  (data people_store)\<rparr>)
        else (Inl ValueError, people_store))"
    by (simp add: update_data_def data_people_store_all people_renamed_def stored_people_def
        iterrows_def index_where_eq_def series_get_def cell_def series_eq_def py_eq_def
        loc_assign_def held_frame_def)
  show "update_data fits pairs_store ''pairs'' pairs_same_a [''a'', ''b'']
     = (if fits stored_pairs [0]
        then (Inr (),
              pairs_store\<lparr>data :=
                setitem ''pairs''
                  (stored_pairs\<lparr>df_rows := [(0, [VNaN, VNaN, VNaN, VNaN, VNaN, VNaN]),
                                            (1, [VInt 1, VInt 2, VNaN, VNaN, VNaN, VNaN])]\<rparr>)
                  (data pairs_store)\<rparr>)
        else (Inl ValueError, pairs_store))"
    by (simp add: update_data_def data_pairs_store pairs_same_a_def stored_pairs_def
        iterrows_def index_where_eq_def series_get_def cell_def series_eq_def py_eq_def
        loc_assign_def held_frame_def concat_frames_def frame_of_series_def reindex_def
        upt_rec [of 0] upt_rec [of 1])
  show "update_data fits pairs_store ''pairs'' pairs_same_b [''a'', ''b'']
     = (if fits (stored_pairs\<lparr>df_rows := [(0, [VInt 1, VInt 1, VNaN, VNaN, VNaN, VNaN]),
                                           (1, [VInt 2, VInt 1, VNaN, VNaN, VNaN, VNaN])]\<rparr>)
             [0, 1]
        then (Inr (),
              pairs_store\<lparr>data :=
                setitem ''pairs''
                  (stored_pairs\<lparr>df_rows := [(0, [VNaN, VNaN, VNaN, VNaN, VNaN, VNaN]),
                                            (1, [VNaN, VNaN, VNaN, VNaN, VNaN, VNaN])]\<rparr>)
                  (data pairs_store)\<rparr>)
        else (Inl ValueError, pairs_store))"
    by (simp add: update_data_def data_pairs_store pairs_same_b_def stored_pairs_def
        iterrows_def index_where_eq_def series_get_def cell_def series_eq_def py_eq_def
        loc_assign_def held_frame_def concat_frames_def frame_of_series_def reindex_def
        upt_rec [of 0] upt_rec [of 1])
qed

section \<open>\<^verbatim>\<open>search\<close> beyond the indexed rows\<close>

text \<open>
  Within the index the search has the shape the spec asks for: for \<open>0 < top_k\<close> up to
  the number of indexed vectors (and at least as many stored rows) it returns exactly
  \<open>top_k\<close> results whose distances do not decrease.
\<close>

lemma series_get_setitem: "series_get (setitem k v row) k = v"
  by (simp add: series_get_def AList.update_conv')

lemma iloc_to_dict_valid:
  "0 \<le> i \<Longrightarrow> i < int (df_len f) \<Longrightarrow> \<exists>row. iloc_to_dict f i = Inr row"
  by (simp add: iloc_to_dict_def Let_def)

lemma search_results_valid:
  assumes "\<forall>h \<in> set hits. 0 \<le> fst h \<and> fst h < int (df_len f)"
  shows "\<exists>results. search_results f hits = Inr results
           \<and> map (\<lambda>row. series_get row ''distance'') results = map (\<lambda>h. VInt (snd h)) hits"
  using assms
proof (induction hits)
  case Nil
  then show ?case by simp
next
  case (Cons h hits)
  obtain idx dist where h: "h = (idx, dist)" by (cases h)
  from Cons.prems h have valid: "0 \<le> idx" "idx < int (df_len f)" by simp_all
  then obtain row where row: "iloc_to_dict f idx = Inr row"
    using iloc_to_dict_valid by blast
  from Cons obtain results where rest: "search_results f hits = Inr results"
    and dists: "map (\<lambda>row. series_get row ''distance'') results = map (\<lambda>h. VInt (snd h)) hits"
    by auto
  from h valid row rest dists show ?case
    by (simp add: series_get_setitem)
qed

lemma index_search_within:
  assumes "length q = dim ix" and "0 < k" and "nat k \<le> length (xb ix)"
  shows "\<exists>hits. index_search ix q k = Inr hits \<and> length hits = nat k \<and> sorted (map snd hits)
           \<and> (\<forall>h \<in> set hits. 0 \<le> fst h \<and> fst h < int (length (xb ix)))"
proof -
  define scored where
    "scored = zip (map int [0 ..< length (xb ix)]) (map (l2_sqr q) (xb ix))"
  define best where "best = take (nat k) (sort_key snd scored)"
  have len_scored: "length scored = length (xb ix)"
    by (simp add: scored_def)
  with assms have len: "length best = nat k"
    by (simp add: best_def)
  from assms len have run: "index_search ix q k = Inr best"
    by (simp add: index_search_def Let_def scored_def best_def)
  have "sorted (map snd (sort_key snd scored))"
    by (rule sorted_sort_key)
  then have "sorted (take (nat k) (map snd (sort_key snd scored)))"
    by (rule sorted_wrt_take)
  then have sorted_best: "sorted (map snd best)"
    by (simp add: best_def take_map)
  have "set best \<subseteq> set scored"
    unfolding best_def using set_take_subset [of "nat k" "sort_key snd scored"] by simp
  moreover have "\<forall>h \<in> set scored. 0 \<le> fst h \<and> fst h < int (length (xb ix))"
    unfolding scored_def by (auto dest!: set_zip_leftD)
  ultimately have "\<forall>h \<in> set best. 0 \<le> fst h \<and> fst h < int (length (xb ix))"
    by blast
  with run len sorted_best show ?thesis by blast
qed

lemma faiss_search_within_index:
  assumes index: "map_of (indexes st) t = Some ix"
    and table: "map_of (data st) t = Some f"
    and query: "length q = dim ix"
    and k: "0 < k" "nat k \<le> length (xb ix)"
    and stored: "length (xb ix) \<le> df_len f"
  shows "\<exists>results ds. faiss_search st t q k = Inr results \<and> length results = nat k
           \<and> map (\<lambda>row. series_get row ''distance'') results = map VInt ds \<and> sorted ds"
proof -
  from index_search_within [OF query k]
  obtain hits where hits: "index_search ix q k = Inr hits" "length hits = nat k"
    "sorted (map snd hits)" "\<forall>h \<in> set hits. 0 \<le> fst h \<and> fst h < int (length (xb ix))"
    by blast
  from hits(4) stored have "\<forall>h \<in> set hits. 0 \<le> fst h \<and> fst h < int (df_len f)"
    by fastforce
  from search_results_valid [OF this]
  obtain results where results: "search_results f hits = Inr results"
    "map (\<lambda>row. series_get row ''distance'') results = map (\<lambda>h. VInt (snd h)) hits"
    by blast
  from results(2) have "length results = length hits"
    by (metis length_map)
  moreover from results(2)
  have "map (\<lambda>row. series_get row ''distance'') results = map VInt (map snd hits)"
    by (simp add: comp_def)
  moreover from index table hits(1) results(1) have "faiss_search st t q k = Inr results"
    by (simp add: faiss_search_def)
  ultimately show ?thesis
    using hits(2,3) by metis
qed

text \<open>
  Claim C6. When \<^verbatim>\<open>top_k\<close> exceeds the number of indexed vectors, faiss fills the
  remaining slots with the label \<open>-1\<close>; the test \<^verbatim>\<open>idx < len(data)\<close> lets \<open>-1\<close> through
  and \<^verbatim>\<open>iloc[-1]\<close> is the last stored row. With one indexed row and \<^verbatim>\<open>top_k = 2\<close> the
  search returns two results, the stored row twice, the second at distance \<open>FLT_MAX\<close>; on
  the table without rows the same lookup raises \<open>IndexError\<close>.
\<close>

theorem search_top_k_beyond_index:
  "map_of (indexes people_indexed) ''people'' = Some \<lparr>dim = 2, xb = [[0, 0]]\<rparr>
   \<and> (case faiss_search people_indexed ''people'' [0, 0] 2 of
        Inl e \<Rightarrow> False
      | Inr results \<Rightarrow>
          map (\<lambda>row. (series_get row ''id'', series_get row ''distance'')) results
            = [(VInt 1, VInt 0), (VInt 1, VInt FLT_MAX)])
   \<and> faiss_search people_table ''people'' [0, 0] 1 = Inl IndexError"
  by code_simp

section \<open>The column types of a new table\<close>

lemma map_of_foldl_setitem:
  "map_of (foldl (\<lambda>dct k. setitem (g k) v dct) acc ks) k' =
     (if k' \<in> g ` set ks then Some v else map_of acc k')"
  by (induction ks arbitrary: acc) (auto simp: AList.update_conv')

lemma distinct_foldl_setitem:
  "distinct (map fst acc) \<Longrightarrow> distinct (map fst (foldl (\<lambda>dct k. setitem (g k) v dct) acc ks))"
  by (induction ks arbitrary: acc) (auto simp: AList.distinct_update)

lemma map_of_dict_from_keys:
  "map_of (dict_from_keys ks v) k = (if k \<in> set ks then Some v else None)"
  using map_of_foldl_setitem [of "\<lambda>k. k" v "[]" ks k] by (simp add: dict_from_keys_def)

lemma distinct_dict_from_keys: "distinct (map fst (dict_from_keys ks v))"
  using distinct_foldl_setitem [of "[]" "\<lambda>k. k" v ks] by (simp add: dict_from_keys_def)

lemma last_enc: "last (x @ ''_enc'') = CHR ''c''"
  by simp

lemma enc_not_fixed:
  "x @ ''_enc'' \<noteq> ''embed_columns_names''" "x @ ''_enc'' \<noteq> ''embed_columns_value''"
  "x @ ''_enc'' \<noteq> ''embeddings''" "x @ ''_enc'' \<noteq> ''is_active''"
proof -
  show "x @ ''_enc'' \<noteq> ''embed_columns_names''"
  proof
    assume "x @ ''_enc'' = ''embed_columns_names''"
    then have "last (x @ ''_enc'') = last ''embed_columns_names''" by (rule arg_cong)
    then show False by simp
  qed
  show "x @ ''_enc'' \<noteq> ''embed_columns_value''"
  proof
    assume "x @ ''_enc'' = ''embed_columns_value''"
    then have "last (x @ ''_enc'') = last ''embed_columns_value''" by (rule arg_cong)
    then show False by simp
  qed
  show "x @ ''_enc'' \<noteq> ''embeddings''"
  proof
    assume "x @ ''_enc'' = ''embeddings''"
    then have "last (x @ ''_enc'') = last ''embeddings''" by (rule arg_cong)
    then show False by simp
  qed
  show "x @ ''_enc'' \<noteq> ''is_active''"
  proof
    assume "x @ ''_enc'' = ''is_active''"
    then have "last (x @ ''_enc'') = last ''is_active''" by (rule arg_cong)
    then show False by simp
  qed
qed

lemma vector_type_neq:
  "vector_type d \<noteq> ''text''" "vector_type d \<noteq> ''text[]''" "vector_type d \<noteq> ''boolean''"
  by (simp_all add: vector_type_def)


lemma map_of_column_types_combined:
  "map_of (column_types cols ''combined'' ecs d) =
     (map_of (dict_from_keys cols ''text''))
       (''embed_columns_names'' \<mapsto> ''text[]'', ''embed_columns_value'' \<mapsto> ''text'',
        ''embeddings'' \<mapsto> vector_type d, ''is_active'' \<mapsto> ''boolean'')"
  by (simp add: column_types_def Let_def AList.update_conv')

lemma map_of_column_types_separated:
  "et \<noteq> ''combined'' \<Longrightarrow>
   map_of (column_types cols et ecs d) k =
     (if k = ''is_active'' then Some ''boolean''
      else if k \<in> (\<lambda>c. c @ ''_enc'') ` set ecs then Some (vector_type d)
      else if k = ''embed_columns_names'' then Some ''text[]''
      else map_of (dict_from_keys cols ''text'') k)"
  by (simp add: column_types_def Let_def AList.update_conv' map_of_foldl_setitem)

lemma distinct_column_types: "distinct (keys (column_types cols et ecs d))"
  by (simp add: column_types_def Let_def keys_def AList.distinct_update distinct_foldl_setitem
      distinct_dict_from_keys)


lemma set_keys_dom: "set (keys dct) = dom (map_of dct)"
  by (simp add: keys_def dom_map_of_conv_image_fst)

lemma dom_dict_from_keys: "dom (map_of (dict_from_keys ks v)) = set ks"
  by (auto simp: dom_def map_of_dict_from_keys)

lemma keys_column_types_combined:
  "set (keys (column_types cols ''combined'' ecs d)) =
     set cols \<union> {''embed_columns_names'', ''embed_columns_value'', ''embeddings'', ''is_active''}"
  by (simp add: set_keys_dom map_of_column_types_combined dom_dict_from_keys insert_commute)

lemma keys_column_types_separated:
  assumes "et \<noteq> ''combined''"
  shows "set (keys (column_types cols et ecs d)) =
     set cols \<union> {''embed_columns_names'', ''is_active''} \<union> (\<lambda>c. c @ ''_enc'') ` set ecs"
proof (rule set_eqI)
  fix k
  show "k \<in> set (keys (column_types cols et ecs d)) \<longleftrightarrow>
        k \<in> set cols \<union> {''embed_columns_names'', ''is_active''} \<union> (\<lambda>c. c @ ''_enc'') ` set ecs"
    using assms
    by (simp add: set_keys_dom dom_def map_of_column_types_separated map_of_dict_from_keys)
qed

lemma column_types_text:
  assumes "c \<in> set cols"
    and "c \<notin> {''embed_columns_names'', ''embed_columns_value'', ''embeddings'', ''is_active''}"
    and "\<forall>x. c \<noteq> x @ ''_enc''"
  shows "map_of (column_types cols et ecs d) c = Some ''text''"
proof (cases "et = ''combined''")
  case True
  with assms show ?thesis
    by (simp add: map_of_column_types_combined map_of_dict_from_keys)
next
  case False
  from assms(3) have "c \<notin> (\<lambda>c. c @ ''_enc'') ` set ecs" by blast
  with False assms show ?thesis
    by (simp add: map_of_column_types_separated map_of_dict_from_keys)
qed

lemma not_enc_image: "(\<And>x. x @ ''_enc'' \<noteq> k) \<Longrightarrow> k \<notin> (\<lambda>c. c @ ''_enc'') ` S"
  by auto

lemma column_types_fixed:
  "map_of (column_types cols et ecs d) ''embed_columns_names'' = Some ''text[]''"
  "map_of (column_types cols et ecs d) ''is_active'' = Some ''boolean''"
proof -
  have "''embed_columns_names'' \<notin> (\<lambda>c. c @ ''_enc'') ` set ecs"
    by (rule not_enc_image) (rule enc_not_fixed)
  then show "map_of (column_types cols et ecs d) ''embed_columns_names'' = Some ''text[]''"
    by (cases "et = ''combined''")
      (simp_all add: map_of_column_types_combined map_of_column_types_separated)
  show "map_of (column_types cols et ecs d) ''is_active'' = Some ''boolean''"
    by (cases "et = ''combined''")
      (simp_all add: map_of_column_types_combined map_of_column_types_separated)
qed

lemma column_types_combined_vector:
  "map_of (column_types cols ''combined'' ecs d) ''embed_columns_value'' = Some ''text''"
  "map_of (column_types cols ''combined'' ecs d) ''embeddings'' = Some (vector_type d)"
  by (simp_all add: map_of_column_types_combined)

lemma column_types_separated_vector:
  "et \<noteq> ''combined'' \<Longrightarrow> c \<in> set ecs \<Longrightarrow>
   map_of (column_types cols et ecs d) (c @ ''_enc'') = Some (vector_type d)"
  using enc_not_fixed(4) [of c] by (simp add: map_of_column_types_separated)

lemma column_types_separated_vectors:
  assumes "et \<noteq> ''combined''"
  shows "{k. map_of (column_types cols et ecs d) k = Some (vector_type d)} =
           (\<lambda>c. c @ ''_enc'') ` set ecs"
proof (rule set_eqI)
  fix k
  show "k \<in> {k. map_of (column_types cols et ecs d) k = Some (vector_type d)} \<longleftrightarrow>
        k \<in> (\<lambda>c. c @ ''_enc'') ` set ecs"
    using assms enc_not_fixed(4) vector_type_neq [of d]
    by (auto simp: map_of_column_types_separated map_of_dict_from_keys)
qed

lemma column_types_combined_vectors:
  "{k. map_of (column_types cols ''combined'' ecs d) k = Some (vector_type d)} = {''embeddings''}"
proof (rule set_eqI)
  fix k
  show "k \<in> {k. map_of (column_types cols ''combined'' ecs d) k = Some (vector_type d)} \<longleftrightarrow>
        k \<in> {''embeddings''}"
    using vector_type_neq [of d]
    by (auto simp: map_of_column_types_combined map_of_dict_from_keys)
qed

lemma not_enc_suffix: "last c \<noteq> CHR ''c'' \<Longrightarrow> c \<noteq> x @ ''_enc''"
  by auto

text \<open>
  Claim C4. For a table the store does not hold yet, \<^verbatim>\<open>create_table\<close> returns and stores
  the column types \<open>ct\<close> with distinct keys in which every input column is \<open>text\<close>,
  \<open>embed_columns_names\<close> is \<open>text[]\<close> and \<open>is_active\<close> is \<open>boolean\<close>. In mode
  \<open>combined\<close> the keys are the input columns and the four fixed columns,
  \<open>embed_columns_value\<close> is \<open>text\<close>, \<open>embeddings\<close> is the only vector column, of the
  configured dimension, and no key ends in \<open>_enc\<close>. In any other mode (\<open>separated\<close>)
  the vector columns are exactly the \<open>c_enc\<close> of the embedding-source columns \<open>c\<close>, and
  there is no \<open>embeddings\<close> and no \<open>embed_columns_value\<close> column.

  The claim speaks of input columns next to the columns that are added: an input column
  cannot be both a text column and, say, the boolean \<open>is_active\<close> column. So the input
  column names are taken to differ from the four fixed names and not to end in \<open>_enc\<close>
  (a later assignment to the same key would replace the type \<open>text\<close>).
\<close>

theorem create_table_schema:
  assumes fresh: "t \<notin> set (keys (indexes st))"
    and fresh_chroma: "t \<notin> set (keys (collections cst))"
    and input: "\<forall>c \<in> set (df_columns df).
                  c \<notin> {''embed_columns_names'', ''embed_columns_value'', ''embeddings'',
                        ''is_active''} \<and> (\<forall>x. c \<noteq> x @ ''_enc'')"
    and ct: "ct = column_types (df_columns df) et ecs d"
  shows "fst (faiss_create_table st t df pk et ecs d) = Inr ct
    \<and> map_of (schemas (snd (faiss_create_table st t df pk et ecs d))) t = Some (new_schema ct)
    \<and> map_of (schemas (snd (chroma_create_table cc cst t df pk et ecs d))) t
        = Some (new_schema ct)
    \<and> (\<forall>coll. cc t = Inr coll \<longrightarrow> fst (chroma_create_table cc cst t df pk et ecs d) = Inr ct)
    \<and> distinct (keys ct)
    \<and> (\<forall>c \<in> set (df_columns df). map_of ct c = Some ''text'')
    \<and> map_of ct ''embed_columns_names'' = Some ''text[]''
    \<and> map_of ct ''is_active'' = Some ''boolean''
    \<and> (et = ''combined'' \<longrightarrow>
          map_of ct ''embed_columns_value'' = Some ''text''
        \<and> map_of ct ''embeddings'' = Some (vector_type d)
        \<and> {k. map_of ct k = Some (vector_type d)} = {''embeddings''}
        \<and> set (keys ct) = set (df_columns df) \<union>
            {''embed_columns_names'', ''embed_columns_value'', ''embeddings'', ''is_active''}
        \<and> (\<forall>x. x @ ''_enc'' \<notin> set (keys ct)))
    \<and> (et \<noteq> ''combined'' \<longrightarrow>
          (\<forall>c \<in> set ecs. map_of ct (c @ ''_enc'') = Some (vector_type d))
        \<and> {k. map_of ct k = Some (vector_type d)} = (\<lambda>c. c @ ''_enc'') ` set ecs
        \<and> set (keys ct) = set (df_columns df) \<union> {''embed_columns_names'', ''is_active''} \<union>
            (\<lambda>c. c @ ''_enc'') ` set ecs
        \<and> ''embeddings'' \<notin> set (keys ct)
        \<and> ''embed_columns_value'' \<notin> set (keys ct))"
proof -
  have faiss_result: "fst (faiss_create_table st t df pk et ecs d) = Inr ct"
    using fresh ct by (simp add: faiss_create_table_def Let_def)
  have faiss_schema:
    "map_of (schemas (snd (faiss_create_table st t df pk et ecs d))) t = Some (new_schema ct)"
    using fresh ct by (simp add: faiss_create_table_def Let_def AList.update_conv')
  have chroma_schema:
    "map_of (schemas (snd (chroma_create_table cc cst t df pk et ecs d))) t
       = Some (new_schema ct)"
    using fresh_chroma ct
    by (simp add: chroma_create_table_def Let_def AList.update_conv' split: sum.splits)
  have chroma_result:
    "\<forall>coll. cc t = Inr coll \<longrightarrow> fst (chroma_create_table cc cst t df pk et ecs d) = Inr ct"
    using fresh_chroma ct by (simp add: chroma_create_table_def Let_def)
  have keys_distinct: "distinct (keys ct)"
    using ct by (simp add: distinct_column_types)
  have all_text: "\<forall>c \<in> set (df_columns df). map_of ct c = Some ''text''"
    using input ct by (simp add: column_types_text)
  have fixed: "map_of ct ''embed_columns_names'' = Some ''text[]''"
    "map_of ct ''is_active'' = Some ''boolean''"
    using ct by (simp_all add: column_types_fixed)
  have combined: "map_of ct ''embed_columns_value'' = Some ''text''
        \<and> map_of ct ''embeddings'' = Some (vector_type d)
        \<and> {k. map_of ct k = Some (vector_type d)} = {''embeddings''}
        \<and> set (keys ct) = set (df_columns df) \<union>
            {''embed_columns_names'', ''embed_columns_value'', ''embeddings'', ''is_active''}
        \<and> (\<forall>x. x @ ''_enc'' \<notin> set (keys ct))" if et: "et = ''combined''"
  proof -
    have ks: "set (keys ct) = set (df_columns df) \<union>
            {''embed_columns_names'', ''embed_columns_value'', ''embeddings'', ''is_active''}"
      using ct et by (simp add: keys_column_types_combined)
    have "x @ ''_enc'' \<notin> set (keys ct)" for x
      using input enc_not_fixed [of x] unfolding ks by blast
    with ks ct et show ?thesis
      by (simp add: column_types_combined_vector column_types_combined_vectors)
  qed
  have separated: "(\<forall>c \<in> set ecs. map_of ct (c @ ''_enc'') = Some (vector_type d))
        \<and> {k. map_of ct k = Some (vector_type d)} = (\<lambda>c. c @ ''_enc'') ` set ecs
        \<and> set (keys ct) = set (df_columns df) \<union> {''embed_columns_names'', ''is_active''} \<union>
            (\<lambda>c. c @ ''_enc'') ` set ecs
        \<and> ''embeddings'' \<notin> set (keys ct)
        \<and> ''embed_columns_value'' \<notin> set (keys ct)" if et: "et \<noteq> ''combined''"
  proof -
    have ks: "set (keys ct) = set (df_columns df) \<union> {''embed_columns_names'', ''is_active''} \<union>
            (\<lambda>c. c @ ''_enc'') ` set ecs"
      using ct et by (simp add: keys_column_types_separated)
    have no_emb: "''embeddings'' \<notin> (\<lambda>c. c @ ''_enc'') ` set ecs"
      by (rule not_enc_image) (rule enc_not_fixed)
    have no_val: "''embed_columns_value'' \<notin> (\<lambda>c. c @ ''_enc'') ` set ecs"
      by (rule not_enc_image) (rule enc_not_fixed)
    have "''embeddings'' \<notin> set (keys ct)" "''embed_columns_value'' \<notin> set (keys ct)"
      using input no_emb no_val unfolding ks by auto
    with ks ct et show ?thesis
      by (simp add: column_types_separated_vector column_types_separated_vectors)
  qed
  from faiss_result faiss_schema chroma_schema chroma_result keys_distinct all_text fixed
    combined separated
  show ?thesis by blast
qed

lemma vector_type_768: "vector_type 768 = ''vector(768)''"
  by code_simp

lemma column_types_catalog:
  "column_types (df_columns catalog) ''separated'' [''name'', ''description''] 768 = catalog_columns"
  by code_simp

theorem create_table_schema_witness:
  "fst (faiss_create_table faiss_init ''catalog'' catalog [''id''] ''separated''
          [''name'', ''description''] 768) = Inr catalog_columns
   \<and> {k. map_of catalog_columns k = Some ''vector(768)''} = {''name_enc'', ''description_enc''}
   \<and> map_of catalog_columns ''id'' = Some ''text''
   \<and> ''embeddings'' \<notin> set (keys catalog_columns)
   \<and> ''embed_columns_value'' \<notin> set (keys catalog_columns)"
proof -
  have fresh: "''catalog'' \<notin> set (keys (indexes faiss_init))"
    by (simp add: faiss_init_def keys_def)
  have fresh_chroma: "''catalog'' \<notin> set (keys (collections (chroma_init :: unit ChromaVectorStore)))"
    by (simp add: chroma_init_def keys_def)
  have input: "\<forall>c \<in> set (df_columns catalog).
                  c \<notin> {''embed_columns_names'', ''embed_columns_value'', ''embeddings'',
                        ''is_active''} \<and> (\<forall>x. c \<noteq> x @ ''_enc'')"
    by (simp add: catalog_def not_enc_suffix)
  have sep: "''separated'' \<noteq> ''combined''"
    by simp
  from create_table_schema
         [OF fresh fresh_chroma input column_types_catalog [symmetric],
          where pk = "[''id'']" and cc = "\<lambda>name. Inr ()"]
       sep vector_type_768
  show ?thesis by (simp add: catalog_def insert_commute)
qed

section \<open>\<^verbatim>\<open>set_inactive\<close>\<close>

lemma cell_Cons: "cell (a # cs) (x # r) c = (if c = a then x else cell cs r c)"
  by (simp add: cell_def)

lemma set_cell_Cons:
  "set_cell (a # cs) c v (x # r) = (if a = c then v else x) # set_cell cs c v r"
  by (simp add: set_cell_def)

lemma length_set_cell: "length r = length cs \<Longrightarrow> length (set_cell cs c v r) = length cs"
  by (simp add: set_cell_def)

lemma cell_set_cell:
  "length cs = length r \<Longrightarrow>
   cell cs (set_cell cs c v r) c' = (if c' = c \<and> c \<in> set cs then v else cell cs r c')"
proof (induction cs r rule: list_induct2)
  case Nil
  then show ?case by (simp add: set_cell_def cell_def)
next
  case (Cons a cs x r)
  then show ?case by (auto simp: cell_Cons set_cell_Cons)
qed

lemma py_eq_refl: "a \<noteq> VNaN \<Longrightarrow> py_eq a a"
  by (cases a) (auto simp: py_eq_def)

lemma isin_member: "a \<in> set vs \<Longrightarrow> isin a vs"
  unfolding isin_def list_ex_iff using py_eq_refl [of a] by blast

lemma isin_plain: "num_of a = None \<Longrightarrow> isin a vs \<longleftrightarrow> a \<in> set vs"
  by (cases a) (auto simp: isin_def list_ex_iff py_eq_def split: option.splits)

lemma wf_frame_rowD:
  "wf_frame f \<Longrightarrow> i < length (df_rows f) \<Longrightarrow> length (snd (df_rows f ! i)) = length (df_columns f)"
  by (simp add: wf_frame_def list_all_length)

lemma loc_set_existing:
  assumes "c \<in> set (df_columns f)"
  shows "df_columns (loc_set f sel c v) = df_columns f"
    and "map fst (df_rows (loc_set f sel c v)) = map fst (df_rows f)"
    and "i < length (df_rows f) \<Longrightarrow>
         df_rows (loc_set f sel c v) ! i =
           (fst (df_rows f ! i),
            if sel (snd (df_rows f ! i)) then set_cell (df_columns f) c v (snd (df_rows f ! i))
            else snd (df_rows f ! i))"
  using assms by (simp_all add: loc_set_def case_prod_beta comp_def)

lemma wf_loc_set: "wf_frame f \<Longrightarrow> c \<in> set (df_columns f) \<Longrightarrow> wf_frame (loc_set f sel c v)"
  by (auto simp: wf_frame_def loc_set_def list_all_iff length_set_cell)


text \<open>
  Claim C7. \<^verbatim>\<open>set_inactive\<close> returns without touching the store when the table is unknown
  or the list of key values is empty. Otherwise the stored frame is replaced by one with the
  same columns and index labels in which every row whose first-column cell is among the key
  values (\<open>isin\<close>) has \<open>is_active = False\<close> and all its other cells as before, and every
  other row is the row it was; nothing else in the store changes. Membership is that of
  \<^verbatim>\<open>Series.isin\<close>: \<open>isin_member\<close> and \<open>isin_plain\<close> relate it to membership in the
  list. The stored frame is one that \<^verbatim>\<open>create_table\<close> made: well-formed, with a first
  column and an \<open>is_active\<close> column.
\<close>

theorem set_inactive_spec:
  "(map_of (data st) t = None \<or> pk_values = [] \<longrightarrow> set_inactive st t pk_values = (Inr (), st))
   \<and> (map_of (data st) t = Some f \<and> pk_values \<noteq> [] \<and> wf_frame f
        \<and> df_columns f = pk_col # cs \<and> ''is_active'' \<in> set (df_columns f) \<longrightarrow>
       (\<exists>f'. set_inactive st t pk_values = (Inr (), st\<lparr>data := setitem t f' (data st)\<rparr>)
          \<and> df_columns f' = df_columns f
          \<and> map fst (df_rows f') = map fst (df_rows f)
          \<and> wf_frame f'
          \<and> (\<forall>i < length (df_rows f).
                (isin (cell (df_columns f) (snd (df_rows f ! i)) pk_col) pk_values \<longrightarrow>
                   (\<forall>c. cell (df_columns f) (snd (df_rows f' ! i)) c =
                          (if c = ''is_active'' then VBool False
                           else cell (df_columns f) (snd (df_rows f ! i)) c)))
              \<and> (\<not> isin (cell (df_columns f) (snd (df_rows f ! i)) pk_col) pk_values \<longrightarrow>
                   df_rows f' ! i = df_rows f ! i))))"
proof (intro conjI impI)
  assume "map_of (data st) t = None \<or> pk_values = []"
  then show "set_inactive st t pk_values = (Inr (), st)"
    by (auto simp: set_inactive_def split: option.splits)
next
  assume a: "map_of (data st) t = Some f \<and> pk_values \<noteq> [] \<and> wf_frame f
        \<and> df_columns f = pk_col # cs \<and> ''is_active'' \<in> set (df_columns f)"
  from a have d: "map_of (data st) t = Some f" and ne: "pk_values \<noteq> []"
    and wff: "wf_frame f" and first: "df_columns f = pk_col # cs"
    and act: "''is_active'' \<in> set (df_columns f)"
    by blast+
  define sel where "sel = (\<lambda>r. isin (cell (df_columns f) r pk_col) pk_values)"
  define f' where "f' = loc_set f sel ''is_active'' (VBool False)"
  from d ne first
  have run: "set_inactive st t pk_values = (Inr (), st\<lparr>data := setitem t f' (data st)\<rparr>)"
    by (simp add: set_inactive_def f'_def sel_def)
  have cols: "df_columns f' = df_columns f"
    unfolding f'_def by (rule loc_set_existing (1) [OF act])
  have labels: "map fst (df_rows f') = map fst (df_rows f)"
    unfolding f'_def by (rule loc_set_existing (2) [OF act])
  have wf: "wf_frame f'"
    unfolding f'_def by (rule wf_loc_set [OF wff act])
  have rows: "(sel (snd (df_rows f ! i)) \<longrightarrow>
                   (\<forall>c. cell (df_columns f) (snd (df_rows f' ! i)) c =
                          (if c = ''is_active'' then VBool False
                           else cell (df_columns f) (snd (df_rows f ! i)) c)))
              \<and> (\<not> sel (snd (df_rows f ! i)) \<longrightarrow> df_rows f' ! i = df_rows f ! i)"
    if i: "i < length (df_rows f)" for i
  proof -
    have len: "length (df_columns f) = length (snd (df_rows f ! i))"
      using wf_frame_rowD [OF wff i] by simp
    have row: "df_rows f' ! i =
           (fst (df_rows f ! i),
            if sel (snd (df_rows f ! i))
            then set_cell (df_columns f) ''is_active'' (VBool False) (snd (df_rows f ! i))
            else snd (df_rows f ! i))"
      unfolding f'_def by (rule loc_set_existing (3) [OF act i])
    show ?thesis
      unfolding row using act by (simp add: cell_set_cell [OF len])
  qed
  from run cols labels wf rows
  show "\<exists>f'. set_inactive st t pk_values = (Inr (), st\<lparr>data := setitem t f' (data st)\<rparr>)
          \<and> df_columns f' = df_columns f
          \<and> map fst (df_rows f') = map fst (df_rows f)
          \<and> wf_frame f'
          \<and> (\<forall>i < length (df_rows f).
                (isin (cell (df_columns f) (snd (df_rows f ! i)) pk_col) pk_values \<longrightarrow>
                   (\<forall>c. cell (df_columns f) (snd (df_rows f' ! i)) c =
                          (if c = ''is_active'' then VBool False
                           else cell (df_columns f) (snd (df_rows f ! i)) c)))
              \<and> (\<not> isin (cell (df_columns f) (snd (df_rows f ! i)) pk_col) pk_values \<longrightarrow>
                   df_rows f' ! i = df_rows f ! i))"
    unfolding sel_def by blast
qed


theorem set_inactive_spec_witness:
  "map_of (data people_store) ''people'' = Some stored_people
   \<and> wf_frame stored_people
   \<and> set_inactive people_store ''people'' [] = (Inr (), people_store)
   \<and> (\<exists>f'. set_inactive people_store ''people'' [VInt 1]
               = (Inr (), people_store\<lparr>data := setitem ''people'' f' (data people_store)\<rparr>)
          \<and> cell (df_columns stored_people) (snd (df_rows f' ! 0)) ''is_active'' = VBool False
          \<and> cell (df_columns stored_people) (snd (df_rows f' ! 0)) ''name'' = VStr ''a'')"
proof -
  have wf: "wf_frame stored_people"
    by (simp add: stored_people_def wf_frame_def)
  have cols: "df_columns stored_people =
      ''id'' # [''name'', ''embed_columns_names'', ''embed_columns_value'', ''embeddings'',
                ''is_active'']"
    by (simp add: stored_people_def)
  have act: "''is_active'' \<in> set (df_columns stored_people)"
    by (simp add: stored_people_def)
  have first_row: "0 < length (df_rows stored_people)"
    by (simp add: stored_people_def)
  have member: "isin (cell (df_columns stored_people) (snd (df_rows stored_people ! 0)) ''id'')
                  [VInt 1]"
    by (simp add: stored_people_def cell_def isin_def py_eq_def)
  have name: "cell (df_columns stored_people) (snd (df_rows stored_people ! 0)) ''name''
                = VStr ''a''"
    by (simp add: stored_people_def cell_def)
  note spec = set_inactive_spec [where st = people_store and t = "''people''"
      and f = stored_people and pk_col = "''id''"
      and cs = "[''name'', ''embed_columns_names'', ''embed_columns_value'', ''embeddings'',
                 ''is_active'']"]
  from spec [where pk_values = "[]"]
  have noop: "set_inactive people_store ''people'' [] = (Inr (), people_store)"
    by simp
  from spec [where pk_values = "[VInt 1]"] data_people_store wf cols act
  obtain f' where run: "set_inactive people_store ''people'' [VInt 1]
               = (Inr (), people_store\<lparr>data := setitem ''people'' f' (data people_store)\<rparr>)"
    and rows: "\<forall>i < length (df_rows stored_people).
        (isin (cell (df_columns stored_people) (snd (df_rows stored_people ! i)) ''id'') [VInt 1]
           \<longrightarrow> (\<forall>c. cell (df_columns stored_people) (snd (df_rows f' ! i)) c =
                    (if c = ''is_active'' then VBool False
                     else cell (df_columns stored_people) (snd (df_rows stored_people ! i)) c)))
        \<and> (\<not> isin (cell (df_columns stored_people) (snd (df_rows stored_people ! i)) ''id'')
                [VInt 1]
           \<longrightarrow> df_rows f' ! i = df_rows stored_people ! i)"
    by blast
  from rows first_row member
  have changed: "\<forall>c. cell (df_columns stored_people) (snd (df_rows f' ! 0)) c =
                    (if c = ''is_active'' then VBool False
                     else cell (df_columns stored_people) (snd (df_rows stored_people ! 0)) c)"
    by blast
  from changed have "cell (df_columns stored_people) (snd (df_rows f' ! 0)) ''is_active''
                       = VBool False"
    by simp
  moreover from changed name
  have "cell (df_columns stored_people) (snd (df_rows f' ! 0)) ''name'' = VStr ''a''"
    by simp
  ultimately show ?thesis
    using data_people_store wf noop run by blast
qed

section \<open>\<^verbatim>\<open>insert_data\<close> and the index\<close>

lemma those_map_vec: "those (map (vec_of \<circ> VVec) m) = Some m"
  by (induction m) simp_all

lemma np_matrix_vectors:
  assumes "m \<noteq> []" and "list_all (\<lambda>v. length v = n) m"
  shows "np_matrix (map VVec m) = Inr m"
proof (cases m)
  case Nil
  with assms show ?thesis by simp
next
  case (Cons v vs)
  with assms have "list_all (\<lambda>w. length w = length v) vs"
    by (simp add: list_all_iff)
  with Cons show ?thesis
    by (simp add: np_matrix_def those_map_vec)
qed

lemma cell_reindex: "c \<in> set new_cols \<Longrightarrow> cell new_cols (reindex new_cols cs r) c = cell cs r c"
  by (simp add: cell_def [of new_cols] reindex_def map_of_zip_map)

lemma map_snd_enumerate: "map (\<lambda>r. g (snd r)) (zip [0 ..< length xs] xs) = map g xs"
  by (rule nth_equalityI) simp_all

lemma column_values_concat:
  assumes "c \<in> set (df_columns a) \<union> set (df_columns b)"
  shows "column_values (concat_frames a b) c = column_values a c @ column_values b c"
proof -
  define new where "new = df_columns a @ filter (\<lambda>c. c \<notin> set (df_columns a)) (df_columns b)"
  define cells where "cells = map (\<lambda>r. reindex new (df_columns a) (snd r)) (df_rows a) @
                  map (\<lambda>r. reindex new (df_columns b) (snd r)) (df_rows b)"
  from assms have c: "c \<in> set new" by (auto simp: new_def)
  have frame: "concat_frames a b = \<lparr>df_columns = new, df_rows = zip [0 ..< length cells] cells\<rparr>"
    by (simp add: concat_frames_def Let_def new_def cells_def)
  have "column_values (concat_frames a b) c = map (\<lambda>x. cell new x c) cells"
    unfolding frame using map_snd_enumerate [of "\<lambda>x. cell new x c" cells]
    by (simp add: column_values_def)
  also have "\<dots> = column_values a c @ column_values b c"
    by (simp add: cells_def column_values_def comp_def cell_reindex [OF c])
  finally show ?thesis .
qed


text \<open>
  Claim C2, as stated, fails in separated mode: \<^verbatim>\<open>insert_data\<close> adds to the index only
  under the test \<^verbatim>\<open>"embeddings" in df.columns\<close>. The table \<open>catalog\<close> is created in mode
  \<open>separated\<close> for the source columns \<open>name\<close> and \<open>description\<close>; a batch whose row
  carries both \<open>name_enc\<close> and \<open>description_enc\<close> is inserted successfully and is active,
  and the index is still empty.
\<close>

theorem insert_data_separated_not_indexed:
  "fst (faiss_insert_data catalog_table ''catalog'' catalog_batch [''id'']) = Inr ()
   \<and> column_values catalog_batch ''name_enc'' = [VVec [1, 0]]
   \<and> column_values catalog_batch ''description_enc'' = [VVec [0, 1]]
   \<and> df_len (get_active_data (snd (faiss_insert_data catalog_table ''catalog'' catalog_batch
              [''id''])) ''catalog'') = 1
   \<and> map_of (indexes (snd (faiss_insert_data catalog_table ''catalog'' catalog_batch [''id''])))
         ''catalog'' = Some \<lparr>dim = 2, xb = []\<rparr>"
  by code_simp

text \<open>
  Claim C2, amended. For an existing table of the faiss store and a batch with its primary-key
  columns: if the batch has no \<open>embeddings\<close> column, the call appends the rows and leaves
  the index as it was; if it has one, holding a vector of the index's dimension in every row
  of a non-empty batch, the call appends the rows and, in the same call, appends these
  vectors \<open>m\<close> to the index in the order of the rows. So if before the call position \<open>i\<close>
  of the index held the \<open>embeddings\<close> cell of stored row \<open>i\<close> (\<open>index_aligned\<close>), it
  does so after the call.
\<close>

theorem faiss_insert_data_index:
  assumes table: "map_of (data st) t = Some old"
    and index: "map_of (indexes st) t = Some ix"
    and pks: "set pks \<subseteq> set (df_columns df)"
  shows "(''embeddings'' \<notin> set (df_columns df) \<longrightarrow>
            faiss_insert_data st t df pks
              = (Inr (), st\<lparr>data := setitem t (concat_frames old df) (data st)\<rparr>))
    \<and> (''embeddings'' \<in> set (df_columns df) \<and> column_values df ''embeddings'' = map VVec m
          \<and> m \<noteq> [] \<and> list_all (\<lambda>v. length v = dim ix) m \<longrightarrow>
            faiss_insert_data st t df pks
              = (Inr (), st\<lparr>data := setitem t (concat_frames old df) (data st),
                            indexes := setitem t (ix\<lparr>xb := xb ix @ m\<rparr>) (indexes st)\<rparr>)
          \<and> (index_aligned ix old \<longrightarrow>
                index_aligned (ix\<lparr>xb := xb ix @ m\<rparr>) (concat_frames old df)))"
proof (intro conjI impI)
  assume "''embeddings'' \<notin> set (df_columns df)"
  with table pks show "faiss_insert_data st t df pks
              = (Inr (), st\<lparr>data := setitem t (concat_frames old df) (data st)\<rparr>)"
    by (simp add: faiss_insert_data_def Let_def list_all_iff subset_iff)
next
  assume a: "''embeddings'' \<in> set (df_columns df) \<and> column_values df ''embeddings'' = map VVec m
          \<and> m \<noteq> [] \<and> list_all (\<lambda>v. length v = dim ix) m"
  then have matrix: "np_matrix (column_values df ''embeddings'') = Inr m"
    using np_matrix_vectors [of m "dim ix"] by simp
  from a have added: "index_add ix m = Inr (ix\<lparr>xb := xb ix @ m\<rparr>)"
    by (simp add: index_add_def)
  from a table index pks matrix added
  show "faiss_insert_data st t df pks
              = (Inr (), st\<lparr>data := setitem t (concat_frames old df) (data st),
                            indexes := setitem t (ix\<lparr>xb := xb ix @ m\<rparr>) (indexes st)\<rparr>)"
    by (simp add: faiss_insert_data_def Let_def list_all_iff subset_iff)
next
  assume a: "''embeddings'' \<in> set (df_columns df) \<and> column_values df ''embeddings'' = map VVec m
          \<and> m \<noteq> [] \<and> list_all (\<lambda>v. length v = dim ix) m"
    and aligned: "index_aligned ix old"
  from a have "column_values (concat_frames old df) ''embeddings''
                 = column_values old ''embeddings'' @ map VVec m"
    by (simp add: column_values_concat)
  with aligned show "index_aligned (ix\<lparr>xb := xb ix @ m\<rparr>) (concat_frames old df)"
    by (simp add: index_aligned_def)
qed

theorem faiss_insert_data_index_witness:
  "map_of (data people_table) ''people'' = Some (DataFrame (keys (column_types [''id'', ''name''] ''combined'' [] 2)))
   \<and> map_of (indexes people_table) ''people'' = Some \<lparr>dim = 2, xb = []\<rparr>
   \<and> column_values people_embedded ''embeddings'' = map VVec [[0, 0]]
   \<and> fst (faiss_insert_data people_table ''people'' people_embedded [''id'']) = Inr ()
   \<and> map_of (indexes (snd (faiss_insert_data people_table ''people'' people_embedded [''id''])))
        ''people'' = Some \<lparr>dim = 2, xb = [[0, 0]]\<rparr>
   \<and> index_aligned \<lparr>dim = 2, xb = [[0, 0]]\<rparr>
        (concat_frames (DataFrame (keys (column_types [''id'', ''name''] ''combined'' [] 2)))
           people_embedded)
   \<and> faiss_insert_data people_table ''people'' people [''id'']
       = (Inr (), people_table\<lparr>data :=
            setitem ''people''
              (concat_frames (DataFrame (keys (column_types [''id'', ''name''] ''combined'' [] 2)))
                 people)
              (data people_table)\<rparr>)"
proof -
  let ?old = "DataFrame (keys (column_types [''id'', ''name''] ''combined'' [] 2))"
  let ?ix = "\<lparr>dim = 2, xb = []\<rparr> :: IndexFlatL2"
  have table: "map_of (data people_table) ''people'' = Some ?old"
    by code_simp
  have index: "map_of (indexes people_table) ''people'' = Some ?ix"
    by code_simp
  have pks: "set [''id''] \<subseteq> set (df_columns people_embedded)"
    "set [''id''] \<subseteq> set (df_columns people)"
    by (simp_all add: people_embedded_def people_def)
  have emb: "''embeddings'' \<in> set (df_columns people_embedded)"
    "''embeddings'' \<notin> set (df_columns people)"
    by (simp_all add: people_embedded_def people_def)
  have cells: "column_values people_embedded ''embeddings'' = map VVec [[0, 0]]"
    by (simp add: people_embedded_def column_values_def cell_def)
  have dims: "[[0, 0]] \<noteq> ([] :: int list list)" "list_all (\<lambda>v. length v = dim ?ix) [[0, 0]]"
    by simp_all
  have aligned: "index_aligned ?ix ?old"
    by (simp add: index_aligned_def column_values_def DataFrame_def)
  from faiss_insert_data_index [OF table index pks(1), where m = "[[0, 0]]"]
       emb(1) cells dims aligned
  have with_embeddings:
    "faiss_insert_data people_table ''people'' people_embedded [''id'']
       = (Inr (), people_table\<lparr>data := setitem ''people'' (concat_frames ?old people_embedded)
                                  (data people_table),
                   indexes := setitem ''people'' (?ix\<lparr>xb := xb ?ix @ [[0, 0]]\<rparr>)
                                  (indexes people_table)\<rparr>)"
    "index_aligned (?ix\<lparr>xb := xb ?ix @ [[0, 0]]\<rparr>) (concat_frames ?old people_embedded)"
    by blast+
  from faiss_insert_data_index [OF table index pks(2), where m = "[]"] emb(2)
  have without: "faiss_insert_data people_table ''people'' people [''id'']
       = (Inr (), people_table\<lparr>data := setitem ''people'' (concat_frames ?old people)
                                  (data people_table)\<rparr>)"
    by blast
  from with_embeddings without table index cells
  show ?thesis by (simp add: AList.update_conv')
qed

section \<open>The frames a store holds\<close>

text \<open>
  The frame \<^verbatim>\<open>create_table\<close> stores is well-formed and has the column \<open>is_active\<close>;
  appending a batch and an assignment through \<^verbatim>\<open>.loc\<close> keep a frame well-formed.
\<close>

lemma wf_frame_new_table: "wf_frame (DataFrame (keys (column_types cols et ecs d)))"
  using distinct_column_types [of cols et ecs d] by (simp add: wf_frame_def DataFrame_def)

lemma is_active_new_table: "''is_active'' \<in> set (keys (column_types cols et ecs d))"
  by (simp add: in_keys_iff column_types_fixed)

lemma columns_concat_frames:
  "df_columns (concat_frames a b) =
     df_columns a @ filter (\<lambda>c. c \<notin> set (df_columns a)) (df_columns b)"
  by (simp add: concat_frames_def Let_def)

lemma wf_concat_frames:
  assumes "distinct (df_columns a)" and "distinct (df_columns b)"
  shows "wf_frame (concat_frames a b)"
proof -
  have "distinct (df_columns (concat_frames a b))"
    using assms by (auto simp: columns_concat_frames)
  moreover have "list_all (\<lambda>r. length (snd r) = length (df_columns (concat_frames a b)))
                   (df_rows (concat_frames a b))"
    by (auto simp: concat_frames_def Let_def list_all_iff reindex_def dest!: set_zip_rightD)
  ultimately show ?thesis by (simp add: wf_frame_def)
qed

lemma wf_loc_assign:
  "wf_frame f \<Longrightarrow> loc_assign fits f idx row = Inr f' \<Longrightarrow> wf_frame f'"
  by (fastforce simp: wf_frame_def loc_assign_def list_all_iff split: if_splits)

end
